theory Spec2Isabelle
  imports Main
begin

section \<open>Errors\<close>

text \<open>
  Go's \<open>error\<close> values. An \<open>awserr.Error\<close> carries a code and a message; \<open>errors.New\<close>
  and \<open>fmt.Errorf\<close> carry a message only; \<open>AccountValidationError\<close> wraps another
  error with one of the validation controller's \<open>ValidationError\<close> types;
  \<open>K8sNotFound\<close> is the not-found error of the resource store.
\<close>

datatype ValidationError =
    InvalidAccount
  | AccountMoveFailed
  | MissingTag
  | IncorrectOwnerTag
  | AccountTagFailed
  | MissingAWSAccount

datatype go_error =
    AwsErr string string
  | ErrorsNew string
  | K8sNotFound
  | AccountValidationError ValidationError go_error

section \<open>Account validation controller\<close>

subsection \<open>The organizations client\<close>

text \<open>
  The part of \<open>awsclient.Client\<close> the validation controller calls. Within one
  validation pass the provider answers as a function of the request.
\<close>

record org_client =
  ListParents :: "string \<Rightarrow> go_error + string list"
  ListTagsForResource :: "string \<Rightarrow> go_error + (string \<times> string) list"
  UntagResource :: "string \<Rightarrow> string list \<Rightarrow> go_error option"
  TagResource :: "string \<Rightarrow> (string \<times> string) list \<Rightarrow> go_error option"

datatype org_call =
    CallListTags string
  | CallUntag string "string list"
  | CallTag string "(string \<times> string) list"

definition ownerKey :: string where
  "ownerKey = ''owner''"

subsection \<open>The walk up the organizational units\<close>

text \<open>
  \<open>ParentsTillPredicate\<close> recurses on the answer of a remote call, so nothing bounds
  it: a provider that answers with a cycle of non-matching parents keeps it running.
  The result \<open>None\<close> is the walk that never returns; \<open>Some (err, parents)\<close> is the
  returned error (if any) with the list the walk appended to.
\<close>

partial_function (option) ParentsTillPredicate ::
  "org_client \<Rightarrow> (string \<Rightarrow> bool) \<Rightarrow> string \<Rightarrow> string list
     \<Rightarrow> (go_error option \<times> string list) option"
where
  "ParentsTillPredicate client p awsId parents =
     (case ListParents client awsId of
        Inl err \<Rightarrow> Some (Some err, parents)
      | Inr ps \<Rightarrow>
          (if length ps = 0 then Some (None, parents)
           else if length ps > 1 then
             Some (Some (ErrorsNew (''More than 1 parents found for Id '' @ awsId)), parents)
           else
             (let id = ps ! 0; parents' = parents @ [id] in
              if p id then Some (None, parents')
              else ParentsTillPredicate client p id parents')))"

text \<open>
  \<open>IsAccountInPoolOU\<close> takes the account's \<open>Spec.AwsAccountID\<close>. It answers \<open>True\<close>
  exactly when the walk returned without error and collected one parent.
\<close>

definition IsAccountInPoolOU ::
  "string \<Rightarrow> org_client \<Rightarrow> (string \<Rightarrow> bool) \<Rightarrow> bool option"
where
  "IsAccountInPoolOU awsAccountID client isPoolOU =
     (if awsAccountID = '''' then Some False
      else
        (case ParentsTillPredicate client isPoolOU awsAccountID [] of
           None \<Rightarrow> None
         | Some (Some err, parentList) \<Rightarrow> Some False
         | Some (None, parentList) \<Rightarrow>
             (if length parentList = 1 then Some True else Some False)))"

subsection \<open>Owner tag validation\<close>

text \<open>
  \<open>untagAccountOwner\<close> issues one \<open>UntagResource\<close> call for the key \<open>owner\<close>
  and returns its error, here together with the call issued.
\<close>

definition untagAccountOwner :: "org_client \<Rightarrow> string \<Rightarrow> go_error option \<times> org_call list" where
  "untagAccountOwner client accountId =
     (UntagResource client accountId [''owner''], [CallUntag accountId [''owner'']])"

text \<open>
  Modelled from the spec: \<open>account.TagAccount\<close> is missing; the repository holds its
  test only. The spec: \<open>tagAccount\<close> is an idempotent upsert of a single owner tag. The
  test shows one \<open>TagResource\<close> call with the single tag \<open>owner = shardName\<close>, whose
  error is what the function returns.
\<close>

definition TagAccount ::
  "org_client \<Rightarrow> string \<Rightarrow> string \<Rightarrow> go_error option \<times> org_call list"
where
  "TagAccount client accountId shardName =
     (TagResource client accountId [(''owner'', shardName)],
      [CallTag accountId [(''owner'', shardName)]])"

text \<open>
  The \<open>for _, tag := range resp.Tags\<close> loop of \<open>ValidateAccountTags\<close>. It returns from
  the function at the first tag whose key is \<open>owner\<close>; \<open>None\<close> is the loop running to
  its end without returning.
\<close>

fun ownerTagLoop ::
  "org_client \<Rightarrow> string \<Rightarrow> string \<Rightarrow> bool \<Rightarrow> (string \<times> string) list
     \<Rightarrow> (go_error option \<times> org_call list) option"
where
  "ownerTagLoop client accountId shardName accountTagEnabled [] = None"
| "ownerTagLoop client accountId shardName accountTagEnabled ((key, val) # tags) =
     (if ownerKey = key then
        (if shardName \<noteq> val then
           (if accountTagEnabled then
              (case untagAccountOwner client accountId of
                 (Some err, calls) \<Rightarrow>
                   Some (Some (AccountValidationError AccountTagFailed err), calls)
               | (None, calls) \<Rightarrow>
                   (case TagAccount client accountId shardName of
                      (Some err, calls') \<Rightarrow>
                        Some (Some (AccountValidationError AccountTagFailed err), calls @ calls')
                    | (None, calls') \<Rightarrow> Some (None, calls @ calls')))
            else
              Some (Some (AccountValidationError IncorrectOwnerTag
                      (ErrorsNew (''Account is not tagged with the correct owner, has '' @ val
                                   @ ''; want '' @ shardName))), []))
         else Some (None, []))
      else ownerTagLoop client accountId shardName accountTagEnabled tags)"

definition ValidateAccountTags ::
  "org_client \<Rightarrow> string \<Rightarrow> string \<Rightarrow> bool \<Rightarrow> go_error option \<times> org_call list"
where
  "ValidateAccountTags client accountId shardName accountTagEnabled =
     (case ListTagsForResource client accountId of
        Inl err \<Rightarrow> (Some err, [CallListTags accountId])
      | Inr tags \<Rightarrow>
          (case ownerTagLoop client accountId shardName accountTagEnabled tags of
             Some (res, calls) \<Rightarrow> (res, CallListTags accountId # calls)
           | None \<Rightarrow>
               (if accountTagEnabled then
                  (case TagAccount client accountId shardName of
                     (Some err, calls) \<Rightarrow>
                       (Some (AccountValidationError AccountTagFailed err),
                        CallListTags accountId # calls)
                   | (None, calls) \<Rightarrow> (None, CallListTags accountId # calls))
                else
                  (Some (AccountValidationError MissingTag
                           (ErrorsNew ''Account is not tagged with an owner'')),
                   [CallListTags accountId]))))"

section \<open>Shared resource types\<close>

text \<open>
  Modelled from the spec: the type declarations of \<open>api/v1alpha1\<close> are missing. The
  records below carry the fields of the spec's data model that the controllers read and
  write. A template's validation state is unvalidated, \<open>Valid\<close> or \<open>Invalid\<close>; a
  request's state is none, \<open>Ready\<close> or \<open>Failed\<close>. A condition is
  \<open>{type, status, reason, message}\<close> (its two timestamps are left out: no controller
  reads them).
\<close>

record 't Condition =
  cType :: 't
  cStatus :: string
  cReason :: string
  cMessage :: string

text \<open>
  Modelled from the spec: \<open>utils.SetAWSFederatedAccountAccessCondition\<close> and
  \<open>utils.SetAWSFederatedRoleCondition\<close> are missing. The spec's update policy: at most
  one entry per type; a repeat observation of the same type and status only refreshes the
  probe time and never appends a duplicate; a changed status or reason rewrites the entry.
\<close>

definition SetCondition ::
  "'t Condition list \<Rightarrow> 't \<Rightarrow> string \<Rightarrow> string \<Rightarrow> string \<Rightarrow> 't Condition list"
where
  "SetCondition conditions conditionType status reason message =
     (let new = \<lparr>cType = conditionType, cStatus = status, cReason = reason, cMessage = message\<rparr>
      in case find (\<lambda>c. cType c = conditionType) conditions of
           None \<Rightarrow> conditions @ [new]
         | Some existing \<Rightarrow>
             (if cStatus existing = status \<and> cReason existing = reason then conditions
              else map (\<lambda>c. if cType c = conditionType then new else c) conditions))"

record AWSStatement =
  Effect :: string
  Action :: "string list"
  Resource :: "string list"
  StatementCondition :: "(string \<times> string) list option"
  Principal :: "string list option"

record AWSCustomPolicy =
  customPolicyName :: string
  customPolicyDescription :: string
  Statements :: "AWSStatement list"

datatype AWSFederatedRoleState =
    AWSFederatedRoleStateNone
  | AWSFederatedRoleStateValid
  | AWSFederatedRoleStateInvalid

datatype AWSFederatedRoleConditionType = AWSFederatedRoleValid | AWSFederatedRoleInvalid

record AWSFederatedRole =
  afrName :: string
  afrFinalizers :: "string list"
  afrDeletionTimestamp :: "nat option"
  RoleDisplayName :: string
  RoleDescription :: string
  afrAWSCustomPolicy :: AWSCustomPolicy
  AWSManagedPolicies :: "string list"
  afrState :: AWSFederatedRoleState
  afrConditions :: "AWSFederatedRoleConditionType Condition list"

datatype AWSFederatedAccountAccessState =
    AWSFederatedAccountStateNone
  | AWSFederatedAccountStateReady
  | AWSFederatedAccountStateFailed

datatype AWSFederatedAccountAccessConditionType =
    AWSFederatedAccountReady
  | AWSFederatedAccountFailed

text \<open>\<open>string(state)\<close>, the reason \<open>SetStatuswithCondition\<close> writes.\<close>

fun stateString :: "AWSFederatedAccountAccessState \<Rightarrow> string" where
  "stateString AWSFederatedAccountStateNone = ''''"
| "stateString AWSFederatedAccountStateReady = ''Ready''"
| "stateString AWSFederatedAccountStateFailed = ''Failed''"

record AWSFederatedAccountAccess =
  faaName :: string
  faaFinalizers :: "string list"
  faaDeletionTimestamp :: "nat option"
  faaLabels :: "string \<rightharpoonup> string"
  faaRoleName :: string
  faaRoleNamespace :: string
  faaSecretName :: string
  faaSecretNamespace :: string
  ExternalCustomerAWSIAMARN :: string
  faaState :: AWSFederatedAccountAccessState
  faaConditions :: "AWSFederatedAccountAccessConditionType Condition list"
  ConsoleURL :: string

section \<open>The cloud provider and the resource store\<close>

text \<open>\<open>k8serr.IsNotFound\<close> holds of the store's not-found error only.\<close>

fun IsNotFound :: "go_error \<Rightarrow> bool" where
  "IsNotFound K8sNotFound = True"
| "IsNotFound _ = False"

record Policy =
  PolicyName :: string
  Arn :: string

record AttachedPolicy =
  apPolicyName :: string
  apPolicyArn :: string

record ListPoliciesOutput =
  Policies :: "Policy list"
  lpIsTruncated :: bool
  lpMarker :: "string option"

record ListAttachedRolePoliciesOutput =
  AttachedPolicies :: "AttachedPolicy list"
  apIsTruncated :: bool
  apMarker :: "string option"

record Credentials =
  AccessKeyId :: string
  SecretAccessKey :: string
  SessionToken :: string

text \<open>
  A policy document is the structure \<open>json.Marshal\<close> serialises: the version string and
  the statements. Marshalling a struct of strings and string slices does not fail.
\<close>

datatype PolicyDocument = PolicyDocument string "AWSStatement list"

datatype Region = AwsUSEastOneRegion | AwsUSGovEastOneRegion

definition GetDefaultRegion :: "bool \<Rightarrow> Region" where
  "GetDefaultRegion isFedramp = (if isFedramp then AwsUSGovEastOneRegion else AwsUSEastOneRegion)"

datatype NewAwsClientInput =
    FromSecret string string Region
  | FromCredentials string string string Region

text \<open>
  Every call that leaves the process is an event of the pass, recorded in order. The
  answer to a call may depend on everything that happened before it: each entry point of
  the provider and of the store takes the number of events so far together with the
  request.
\<close>

datatype event =
    EvUpdate AWSFederatedAccountAccess
  | EvStatusUpdate AWSFederatedAccountAccess
  | EvUpdateRole AWSFederatedRole
  | EvStatusUpdateRole AWSFederatedRole
  | EvFinalizeFederateRole AWSFederatedRole
  | EvGetClient NewAwsClientInput
  | EvGetCallerIdentity
  | EvCreatePolicy string string PolicyDocument
  | EvDeletePolicy string
  | EvCreateRole string string PolicyDocument
  | EvDeleteRole string
  | EvAttachRolePolicy string string
  | EvDetachRolePolicy string string
  | EvAssumeRole string string
  | EvListAttachedRolePolicies string "string option"
  | EvListPolicies "string option" "string option"

record aws_client =
  GetCallerIdentity :: "nat \<Rightarrow> go_error + string"
  CreatePolicy :: "nat \<Rightarrow> string \<Rightarrow> string \<Rightarrow> PolicyDocument \<Rightarrow> go_error + Policy"
  DeletePolicy :: "nat \<Rightarrow> string \<Rightarrow> go_error option"
  CreateRole :: "nat \<Rightarrow> string \<Rightarrow> string \<Rightarrow> PolicyDocument \<Rightarrow> go_error + string"
  DeleteRole :: "nat \<Rightarrow> string \<Rightarrow> go_error option"
  AttachRolePolicy :: "nat \<Rightarrow> string \<Rightarrow> string \<Rightarrow> go_error option"
  DetachRolePolicy :: "nat \<Rightarrow> string \<Rightarrow> string \<Rightarrow> go_error option"
  AssumeRole :: "nat \<Rightarrow> string \<Rightarrow> string \<Rightarrow> go_error + Credentials"
  ListAttachedRolePolicies :: "nat \<Rightarrow> string \<Rightarrow> string option \<Rightarrow> go_error + ListAttachedRolePoliciesOutput"
  ListPolicies :: "nat \<Rightarrow> string option \<Rightarrow> string option \<Rightarrow> go_error + ListPoliciesOutput"

record kube_client =
  GetFAA :: "go_error + AWSFederatedAccountAccess"
  GetRequestedRole :: "go_error + AWSFederatedRole"
  Update :: "nat \<Rightarrow> AWSFederatedAccountAccess \<Rightarrow> go_error option"
  StatusUpdate :: "nat \<Rightarrow> AWSFederatedAccountAccess \<Rightarrow> go_error option"
  GetInstance :: "go_error + AWSFederatedRole"
  UpdateRole :: "nat \<Rightarrow> AWSFederatedRole \<Rightarrow> go_error option"
  StatusUpdateRole :: "nat \<Rightarrow> AWSFederatedRole \<Rightarrow> go_error option"

text \<open>
  What the two reconcilers take from the rest of the operator: the clients, the builder
  of AWS clients, and the parts of \<open>pkg/utils\<close>, \<open>api/v1alpha1\<close> and of the role
  controller's own package that are missing: the constants \<open>Finalizer\<close>, \<open>UIDLabel\<close>,
  \<open>AccountIDLabel\<close>, \<open>AwsSecretName\<close> and \<open>AccountCrNamespace\<close>, the token
  \<open>GenerateShortUID\<close> returns in this pass, the fedramp flag, \<open>MarshalIAMPolicy\<close>
  and \<open>finalizeFederateRole\<close> (an opaque call that returns an error or \<open>nil\<close>).
\<close>

record world =
  aws :: aws_client
  kube :: kube_client
  GetClient :: "nat \<Rightarrow> NewAwsClientInput \<Rightarrow> go_error option"
  Finalizer :: string
  UIDLabel :: string
  AccountIDLabel :: string
  GenerateShortUID :: string
  AwsSecretName :: string
  AccountCrNamespace :: string
  isFedramp :: bool
  MarshalIAMPolicy :: "AWSFederatedRole \<Rightarrow> go_error + PolicyDocument"
  finalizeFederateRole :: "nat \<Rightarrow> AWSFederatedRole \<Rightarrow> go_error option"

text \<open>The result of a loop whose end the provider decides, run with a bound on its rounds.\<close>

datatype 'a run = Done 'a | Running

section \<open>Federated account access controller\<close>

text \<open>
  Modelled from the spec: \<open>pkg/utils\<close> is missing. The finalizer markers of a resource
  are a set of strings and its labels a map: \<open>Contains\<close> is membership, \<open>Remove\<close>
  deletes every occurrence of the marker, \<open>JoinLabelMaps\<close> is the union of two label
  maps (the reconciler joins a key only when the first map lacks it).
\<close>

definition Contains :: "string list \<Rightarrow> string \<Rightarrow> bool" where
  "Contains list s \<longleftrightarrow> s \<in> set list"

definition Remove :: "string list \<Rightarrow> string \<Rightarrow> string list" where
  "Remove list s = filter (\<lambda>v. v \<noteq> s) list"

definition JoinLabelMaps :: "(string \<rightharpoonup> string) \<Rightarrow> (string \<rightharpoonup> string) \<Rightarrow> (string \<rightharpoonup> string)" where
  "JoinLabelMaps m1 m2 = m1 ++ m2"

text \<open>\<open>strings.HasSuffix\<close>: \<open>len(s) >= len(suffix) && s[len(s)-len(suffix):] == suffix\<close>.\<close>

definition HasSuffix :: "string \<Rightarrow> string \<Rightarrow> bool" where
  "HasSuffix s suffix \<longleftrightarrow>
     length s \<ge> length suffix \<and> drop (length s - length suffix) s = suffix"

subsection \<open>Calls\<close>

text \<open>
  Each call appends its event to the trace and returns the answer the world gives at that
  point of the pass.
\<close>

definition callUpdate ::
  "world \<Rightarrow> AWSFederatedAccountAccess \<Rightarrow> event list \<Rightarrow> go_error option \<times> event list" where
  "callUpdate w obj tr = (Update (kube w) (length tr) obj, tr @ [EvUpdate obj])"

definition callStatusUpdate ::
  "world \<Rightarrow> AWSFederatedAccountAccess \<Rightarrow> event list \<Rightarrow> go_error option \<times> event list" where
  "callStatusUpdate w obj tr = (StatusUpdate (kube w) (length tr) obj, tr @ [EvStatusUpdate obj])"

definition callGetClient ::
  "world \<Rightarrow> NewAwsClientInput \<Rightarrow> event list \<Rightarrow> go_error option \<times> event list" where
  "callGetClient w input tr = (GetClient w (length tr) input, tr @ [EvGetClient input])"

definition callGetCallerIdentity :: "world \<Rightarrow> event list \<Rightarrow> (go_error + string) \<times> event list" where
  "callGetCallerIdentity w tr = (GetCallerIdentity (aws w) (length tr), tr @ [EvGetCallerIdentity])"

definition callCreatePolicy ::
  "world \<Rightarrow> string \<Rightarrow> string \<Rightarrow> PolicyDocument \<Rightarrow> event list \<Rightarrow> (go_error + Policy) \<times> event list"
where
  "callCreatePolicy w name description doc tr =
     (CreatePolicy (aws w) (length tr) name description doc,
      tr @ [EvCreatePolicy name description doc])"

definition callDeletePolicy :: "world \<Rightarrow> string \<Rightarrow> event list \<Rightarrow> go_error option \<times> event list" where
  "callDeletePolicy w arn tr = (DeletePolicy (aws w) (length tr) arn, tr @ [EvDeletePolicy arn])"

definition callCreateRole ::
  "world \<Rightarrow> string \<Rightarrow> string \<Rightarrow> PolicyDocument \<Rightarrow> event list \<Rightarrow> (go_error + string) \<times> event list"
where
  "callCreateRole w name description doc tr =
     (CreateRole (aws w) (length tr) name description doc,
      tr @ [EvCreateRole name description doc])"

definition callDeleteRole :: "world \<Rightarrow> string \<Rightarrow> event list \<Rightarrow> go_error option \<times> event list" where
  "callDeleteRole w name tr = (DeleteRole (aws w) (length tr) name, tr @ [EvDeleteRole name])"

definition callAttachRolePolicy ::
  "world \<Rightarrow> string \<Rightarrow> string \<Rightarrow> event list \<Rightarrow> go_error option \<times> event list" where
  "callAttachRolePolicy w arn roleName tr =
     (AttachRolePolicy (aws w) (length tr) arn roleName, tr @ [EvAttachRolePolicy arn roleName])"

definition callDetachRolePolicy ::
  "world \<Rightarrow> string \<Rightarrow> string \<Rightarrow> event list \<Rightarrow> go_error option \<times> event list" where
  "callDetachRolePolicy w roleName arn tr =
     (DetachRolePolicy (aws w) (length tr) roleName arn, tr @ [EvDetachRolePolicy roleName arn])"

definition callAssumeRole ::
  "world \<Rightarrow> string \<Rightarrow> string \<Rightarrow> event list \<Rightarrow> (go_error + Credentials) \<times> event list" where
  "callAssumeRole w roleArn sessionName tr =
     (AssumeRole (aws w) (length tr) roleArn sessionName, tr @ [EvAssumeRole roleArn sessionName])"

definition callListAttachedRolePolicies ::
  "world \<Rightarrow> string \<Rightarrow> string option \<Rightarrow> event list
     \<Rightarrow> (go_error + ListAttachedRolePoliciesOutput) \<times> event list"
where
  "callListAttachedRolePolicies w roleName marker tr =
     (ListAttachedRolePolicies (aws w) (length tr) roleName marker,
      tr @ [EvListAttachedRolePolicies roleName marker])"

definition callListPolicies ::
  "world \<Rightarrow> string option \<Rightarrow> string option \<Rightarrow> event list
     \<Rightarrow> (go_error + ListPoliciesOutput) \<times> event list"
where
  "callListPolicies w scope marker tr =
     (ListPolicies (aws w) (length tr) scope marker, tr @ [EvListPolicies scope marker])"

subsection \<open>Helpers of the reconciler\<close>

definition hasLabel :: "AWSFederatedAccountAccess \<Rightarrow> string \<Rightarrow> bool" where
  "hasLabel awsFederatedAccountAccess labelKey \<longleftrightarrow>
     faaLabels awsFederatedAccountAccess labelKey \<noteq> None"

definition createPolicyArns :: "string \<Rightarrow> string list \<Rightarrow> bool \<Rightarrow> string list" where
  "createPolicyArns accountID policyNames awsManaged =
     (let awsPolicyArnPrefix =
            (if awsManaged then ''arn:aws:iam::aws:policy/''
             else ''arn:aws:iam::'' @ accountID @ '':policy/'')
      in map (\<lambda>policy. awsPolicyArnPrefix @ policy) policyNames)"

definition SetStatuswithCondition ::
  "AWSFederatedAccountAccess \<Rightarrow> string \<Rightarrow> AWSFederatedAccountAccessConditionType
     \<Rightarrow> AWSFederatedAccountAccessState \<Rightarrow> AWSFederatedAccountAccess"
where
  "SetStatuswithCondition afaa message ctype state =
     afaa\<lparr>faaConditions :=
            SetCondition (faaConditions afaa) ctype ''True'' (stateString state) message,
          faaState := state\<rparr>"

definition addFinalizer ::
  "world \<Rightarrow> AWSFederatedAccountAccess \<Rightarrow> event list
     \<Rightarrow> go_error option \<times> AWSFederatedAccountAccess \<times> event list"
where
  "addFinalizer w awsFederatedAccountAccess tr =
     (let obj = awsFederatedAccountAccess
                  \<lparr>faaFinalizers := faaFinalizers awsFederatedAccountAccess @ [Finalizer w]\<rparr>
      in case callUpdate w obj tr of (err, tr') \<Rightarrow> (err, obj, tr'))"

definition removeFinalizer ::
  "world \<Rightarrow> AWSFederatedAccountAccess \<Rightarrow> string \<Rightarrow> event list
     \<Rightarrow> go_error option \<times> AWSFederatedAccountAccess \<times> event list"
where
  "removeFinalizer w awsFederatedAccountAccess finalizerName tr =
     (let obj = awsFederatedAccountAccess
                  \<lparr>faaFinalizers := Remove (faaFinalizers awsFederatedAccountAccess) finalizerName\<rparr>
      in case callUpdate w obj tr of (err, tr') \<Rightarrow> (err, obj, tr'))"

definition getPolicyNameWithUID :: "string \<Rightarrow> string \<Rightarrow> string \<Rightarrow> string" where
  "getPolicyNameWithUID awsCustomPolicyname crPolicyName uidLabel =
     (if \<not> HasSuffix crPolicyName (''-'' @ uidLabel) then crPolicyName @ ''-'' @ uidLabel
      else crPolicyName)"

definition checkAndDeletePolicy ::
  "world \<Rightarrow> string \<Rightarrow> string \<Rightarrow> string \<Rightarrow> string \<Rightarrow> event list
     \<Rightarrow> go_error option \<times> event list"
where
  "checkAndDeletePolicy w uidLabel crPolicyName policyName policyArn tr =
     (let awsCustomPolicyname = getPolicyNameWithUID '''' crPolicyName uidLabel
      in if policyName = awsCustomPolicyname then callDeletePolicy w policyArn tr
         else (None, tr))"

subsection \<open>Provisioning\<close>

definition createIAMPolicy ::
  "world \<Rightarrow> AWSFederatedRole \<Rightarrow> AWSFederatedAccountAccess \<Rightarrow> event list
     \<Rightarrow> (go_error + Policy) \<times> event list"
where
  "createIAMPolicy w afr afaa tr =
     (let policyDoc = PolicyDocument ''2012-10-17'' (Statements (afrAWSCustomPolicy afr))
      in case faaLabels afaa ''uid'' of
           None \<Rightarrow> (Inl (ErrorsNew ''Failed to get UID label''), tr)
         | Some uidLabel \<Rightarrow>
             callCreatePolicy w (customPolicyName (afrAWSCustomPolicy afr) @ ''-'' @ uidLabel)
               (customPolicyDescription (afrAWSCustomPolicy afr)) policyDoc tr)"

definition createIAMRole ::
  "world \<Rightarrow> AWSFederatedRole \<Rightarrow> AWSFederatedAccountAccess \<Rightarrow> event list
     \<Rightarrow> (go_error + string) \<times> event list"
where
  "createIAMRole w afr afaa tr =
     (let assumeRolePolicyDoc =
            PolicyDocument ''2012-10-17''
              [\<lparr>Effect = ''Allow'', Action = [''sts:AssumeRole''], Resource = [],
                StatementCondition = None,
                Principal = Some [ExternalCustomerAWSIAMARN afaa]\<rparr>]
      in case faaLabels afaa ''uid'' of
           None \<Rightarrow> (Inl (ErrorsNew ''Failed to get UID label''), tr)
         | Some uidLabel \<Rightarrow>
             callCreateRole w (afrName afr @ ''-'' @ uidLabel) (RoleDescription afr)
               assumeRolePolicyDoc tr)"

definition createOrUpdateIAMPolicy ::
  "world \<Rightarrow> AWSFederatedRole \<Rightarrow> AWSFederatedAccountAccess \<Rightarrow> event list
     \<Rightarrow> go_error option \<times> event list"
where
  "createOrUpdateIAMPolicy w afr afaa tr =
     (case faaLabels afaa ''uid'' of
        None \<Rightarrow> (Some (ErrorsNew ''Unable to get UID label''), tr)
      | Some uidLabel \<Rightarrow>
          (case callGetCallerIdentity w tr of
             (Inl err, tr1) \<Rightarrow> (Some err, tr1)
           | (Inr account, tr1) \<Rightarrow>
               (let customPolArns =
                      createPolicyArns account
                        [customPolicyName (afrAWSCustomPolicy afr) @ ''-'' @ uidLabel] False
                in case createIAMPolicy w afr afaa tr1 of
                     (Inr policy, tr2) \<Rightarrow> (None, tr2)
                   | (Inl (AwsErr code message), tr2) \<Rightarrow>
                       (if code = ''EntityAlreadyExists'' then
                          (case callDeletePolicy w (hd customPolArns) tr2 of
                             (Some err, tr3) \<Rightarrow> (Some err, tr3)
                           | (None, tr3) \<Rightarrow>
                               (case createIAMPolicy w afr afaa tr3 of
                                  (Inl err, tr4) \<Rightarrow> (Some err, tr4)
                                | (Inr policy, tr4) \<Rightarrow> (None, tr4)))
                        else (None, tr2))
                   | (Inl err, tr2) \<Rightarrow> (None, tr2))))"

definition createOrUpdateIAMRole ::
  "world \<Rightarrow> AWSFederatedRole \<Rightarrow> AWSFederatedAccountAccess \<Rightarrow> event list
     \<Rightarrow> (go_error + string) \<times> event list"
where
  "createOrUpdateIAMRole w afr afaa tr =
     (case faaLabels afaa ''uid'' of
        None \<Rightarrow> (Inl (ErrorsNew ''Unable to get UID label''), tr)
      | Some uidLabel \<Rightarrow>
          (let roleName = faaRoleName afaa @ ''-'' @ uidLabel
           in case createIAMRole w afr afaa tr of
                (Inr role, tr1) \<Rightarrow> (Inr role, tr1)
              | (Inl (AwsErr code message), tr1) \<Rightarrow>
                  (if code = ''EntityAlreadyExists'' then
                     (case callDeleteRole w roleName tr1 of
                        (Some err, tr2) \<Rightarrow> (Inl err, tr2)
                      | (None, tr2) \<Rightarrow> createIAMRole w afr afaa tr2)
                   else (Inl (AwsErr code message), tr1))
              | (Inl err, tr1) \<Rightarrow> (Inl err, tr1)))"

fun attachIAMPolices ::
  "world \<Rightarrow> string \<Rightarrow> string list \<Rightarrow> event list \<Rightarrow> go_error option \<times> event list"
where
  "attachIAMPolices w roleName [] tr = (None, tr)"
| "attachIAMPolices w roleName (pol # policyArns) tr =
     (case callAttachRolePolicy w pol roleName tr of
        (Some err, tr') \<Rightarrow> (Some err, tr')
      | (None, tr') \<Rightarrow> attachIAMPolices w roleName policyArns tr')"

subsection \<open>Teardown\<close>

text \<open>The \<open>for _, policy := range policyListOutput.Policies\<close> loop.\<close>

fun checkPolicies ::
  "world \<Rightarrow> string \<Rightarrow> string \<Rightarrow> Policy list \<Rightarrow> event list \<Rightarrow> go_error option \<times> event list"
where
  "checkPolicies w uidLabel crPolicyName [] tr = (None, tr)"
| "checkPolicies w uidLabel crPolicyName (policy # policies) tr =
     (case checkAndDeletePolicy w uidLabel crPolicyName (PolicyName policy) (Arn policy) tr of
        (Some err, tr') \<Rightarrow> (Some err, tr')
      | (None, tr') \<Rightarrow> checkPolicies w uidLabel crPolicyName policies tr')"

text \<open>
  The pagination loop of \<open>deleteNonAttachedCustomPolicy\<close>. It ends when the provider
  answers with \<open>IsTruncated = false\<close> or with an error; the first argument bounds the
  pages read, and \<open>Running\<close> is the loop that has not ended within the bound.
\<close>

fun listPoliciesLoop ::
  "nat \<Rightarrow> world \<Rightarrow> string \<Rightarrow> string \<Rightarrow> string option \<Rightarrow> event list
     \<Rightarrow> go_error option run \<times> event list"
where
  "listPoliciesLoop 0 w uidLabel crPolicyName policyMarker tr = (Running, tr)"
| "listPoliciesLoop (Suc n) w uidLabel crPolicyName policyMarker tr =
     (case callListPolicies w (Some ''Local'') policyMarker tr of
        (Inl err, tr1) \<Rightarrow> (Done (Some err), tr1)
      | (Inr policyListOutput, tr1) \<Rightarrow>
          (case checkPolicies w uidLabel crPolicyName (Policies policyListOutput) tr1 of
             (Some err, tr2) \<Rightarrow> (Done (Some err), tr2)
           | (None, tr2) \<Rightarrow>
               (if lpIsTruncated policyListOutput then
                  listPoliciesLoop n w uidLabel crPolicyName (lpMarker policyListOutput) tr2
                else (Done None, tr2))))"

definition deleteNonAttachedCustomPolicy ::
  "nat \<Rightarrow> world \<Rightarrow> AWSFederatedAccountAccess \<Rightarrow> AWSFederatedRole \<Rightarrow> event list
     \<Rightarrow> go_error option run \<times> event list"
where
  "deleteNonAttachedCustomPolicy fuel w currentFAA federatedRoleCR tr =
     (case faaLabels currentFAA (UIDLabel w) of
        None \<Rightarrow> (Done (Some (ErrorsNew ''Unable to get UID label'')), tr)
      | Some uidLabel \<Rightarrow>
          listPoliciesLoop fuel w uidLabel
            (customPolicyName (afrAWSCustomPolicy federatedRoleCR)) None tr)"

text \<open>The \<open>for _, attachedPolicy := range attachedPolicyOutput.AttachedPolicies\<close> loop.\<close>

fun detachPolicies ::
  "world \<Rightarrow> string \<Rightarrow> string \<Rightarrow> string \<Rightarrow> AttachedPolicy list \<Rightarrow> event list
     \<Rightarrow> go_error option \<times> event list"
where
  "detachPolicies w roleName uidLabel crPolicyName [] tr = (None, tr)"
| "detachPolicies w roleName uidLabel crPolicyName (attachedPolicy # rest) tr =
     (case callDetachRolePolicy w roleName (apPolicyArn attachedPolicy) tr of
        (Some err, tr1) \<Rightarrow> (Some err, tr1)
      | (None, tr1) \<Rightarrow>
          (case checkAndDeletePolicy w uidLabel crPolicyName (apPolicyName attachedPolicy)
                  (apPolicyArn attachedPolicy) tr1 of
             (Some err, tr2) \<Rightarrow> (Some err, tr2)
           | (None, tr2) \<Rightarrow> detachPolicies w roleName uidLabel crPolicyName rest tr2))"

text \<open>
  The pagination loop of \<open>cleanFederatedRoles\<close>. \<open>Returned err\<close> is a \<open>return\<close> from
  inside the loop, \<open>Broke\<close> the \<open>break\<close> after the last page, \<open>StillRunning\<close> the loop
  (or the sweep it started) that has not ended within the bound.
\<close>

datatype loop_exit = Returned "go_error option" | Broke | StillRunning

fun detachLoop ::
  "nat \<Rightarrow> world \<Rightarrow> AWSFederatedAccountAccess \<Rightarrow> AWSFederatedRole \<Rightarrow> string \<Rightarrow> string
     \<Rightarrow> string option \<Rightarrow> event list \<Rightarrow> loop_exit \<times> event list"
where
  "detachLoop 0 w currentFAA federatedRoleCR roleName uidLabel nextMarker tr = (StillRunning, tr)"
| "detachLoop (Suc n) w currentFAA federatedRoleCR roleName uidLabel nextMarker tr =
     (case callListAttachedRolePolicies w roleName nextMarker tr of
        (Inl (AwsErr code message), tr1) \<Rightarrow>
          (if code = ''NoSuchEntity'' then
             (case deleteNonAttachedCustomPolicy (Suc n) w currentFAA federatedRoleCR tr1 of
                (Done err, tr2) \<Rightarrow> (Returned err, tr2)
              | (Running, tr2) \<Rightarrow> (StillRunning, tr2))
           else (Returned (Some (AwsErr code message)), tr1))
      | (Inl err, tr1) \<Rightarrow> (Returned (Some err), tr1)
      | (Inr attachedPolicyOutput, tr1) \<Rightarrow>
          (case detachPolicies w roleName uidLabel
                  (customPolicyName (afrAWSCustomPolicy federatedRoleCR))
                  (AttachedPolicies attachedPolicyOutput) tr1 of
             (Some err, tr2) \<Rightarrow> (Returned (Some err), tr2)
           | (None, tr2) \<Rightarrow>
               (if apIsTruncated attachedPolicyOutput then
                  detachLoop n w currentFAA federatedRoleCR roleName uidLabel
                    (apMarker attachedPolicyOutput) tr2
                else (Broke, tr2))))"

definition cleanFederatedRoles ::
  "nat \<Rightarrow> world \<Rightarrow> AWSFederatedAccountAccess \<Rightarrow> AWSFederatedRole \<Rightarrow> event list
     \<Rightarrow> go_error option run \<times> event list"
where
  "cleanFederatedRoles fuel w currentFAA federatedRoleCR tr =
     (case faaLabels currentFAA (UIDLabel w) of
        None \<Rightarrow>
          (if faaState currentFAA \<noteq> AWSFederatedAccountStateReady then (Done None, tr)
           else (Done (Some (ErrorsNew ''Unable to get UID label'')), tr))
      | Some uidLabel \<Rightarrow>
     (case faaLabels currentFAA (AccountIDLabel w) of
        None \<Rightarrow>
          (if faaState currentFAA \<noteq> AWSFederatedAccountStateReady then (Done None, tr)
           else (Done (Some (ErrorsNew ''Unable to get AWS Account ID label'')), tr))
      | Some accountIDLabel \<Rightarrow>
     (let roleName = faaRoleName currentFAA @ ''-'' @ uidLabel;
          awsRegion = GetDefaultRegion (isFedramp w)
      in
      case callGetClient w (FromSecret (AwsSecretName w) (AccountCrNamespace w) awsRegion) tr of
        (Some err, tr1) \<Rightarrow> (Done (Some err), tr1)
      | (None, tr1) \<Rightarrow>
     (case (case callAssumeRole w
                   (''arn:aws:iam::'' @ accountIDLabel @ '':role/OrganizationAccountAccessRole'')
                   ''FederatedRoleCleanup'' tr1 of
              (Inl err, tr2) \<Rightarrow>
                callAssumeRole w
                  (''arn:aws:iam::'' @ accountIDLabel @ '':role/BYOCAdminAccess-'' @ uidLabel)
                  ''FederatedRoleCleanup'' tr2
            | (Inr out, tr2) \<Rightarrow> (Inr out, tr2)) of
        (Inl err, tr3) \<Rightarrow> (Done (Some err), tr3)
      | (Inr assumeRoleOutput, tr3) \<Rightarrow>
     (case callGetClient w
             (FromCredentials (AccessKeyId assumeRoleOutput) (SecretAccessKey assumeRoleOutput)
                (SessionToken assumeRoleOutput) awsRegion) tr3 of
        (Some err, tr4) \<Rightarrow> (Done (Some err), tr4)
      | (None, tr4) \<Rightarrow>
     (case detachLoop fuel w currentFAA federatedRoleCR roleName uidLabel None tr4 of
        (StillRunning, tr5) \<Rightarrow> (Running, tr5)
      | (Returned err, tr5) \<Rightarrow> (Done err, tr5)
      | (Broke, tr5) \<Rightarrow>
          (case callDeleteRole w roleName tr5 of
             (err, tr6) \<Rightarrow> (Done err, tr6))))))))"

subsection \<open>Reconcile\<close>

text \<open>
  \<open>Reconcile\<close> of the federated account access reconciler, in three parts: the deletion
  block (\<open>if currentFAA.DeletionTimestamp != nil\<close>), which either returns or falls
  through to what follows it; the provisioning steps from the state check to the end;
  and the function itself. The result is the returned error (\<open>Running\<close> when a teardown
  loop has not ended), the object the pass holds at that point, and the events of the
  pass.
\<close>

type_synonym faa_result =
  "go_error option run \<times> AWSFederatedAccountAccess option \<times> event list"

definition faaReconcile_deletion ::
  "nat \<Rightarrow> world \<Rightarrow> AWSFederatedAccountAccess \<Rightarrow> AWSFederatedRole \<Rightarrow> event list
     \<Rightarrow> faa_result + (AWSFederatedAccountAccess \<times> event list)"
where
  "faaReconcile_deletion fuel w currentFAA requestedRole tr =
     (if faaDeletionTimestamp currentFAA \<noteq> None then
        (if Contains (faaFinalizers currentFAA) (Finalizer w) then
           (case cleanFederatedRoles fuel w currentFAA requestedRole tr of
              (Running, tr1) \<Rightarrow> Inl (Running, Some currentFAA, tr1)
            | (Done (Some err), tr1) \<Rightarrow> Inl (Done (Some err), Some currentFAA, tr1)
            | (Done None, tr1) \<Rightarrow>
                (case removeFinalizer w currentFAA (Finalizer w) tr1 of
                   (Some err, obj, tr2) \<Rightarrow> Inl (Done (Some err), Some obj, tr2)
                 | (None, obj, tr2) \<Rightarrow> Inr (obj, tr2)))
         else Inr (currentFAA, tr))
      else Inr (currentFAA, tr))"

text \<open>
  The status update after a failed step: \<open>SetStatuswithCondition\<close> with the \<open>Failed\<close>
  condition and state, \<open>Status().Update\<close>, then \<open>return reconcile.Result{}, nil\<close>
  unless the update itself failed. After a failed \<open>GetCallerIdentity\<close> the last line
  reads \<open>return reconcile.Result{}, err\<close>, where \<open>err\<close> is the block-local error of
  the status update, which is \<open>nil\<close> at that point: the provider's error is not
  returned there either.
\<close>

definition failStatus ::
  "world \<Rightarrow> AWSFederatedAccountAccess \<Rightarrow> string \<Rightarrow> event list \<Rightarrow> faa_result"
where
  "failStatus w currentFAA message tr =
     (let obj = SetStatuswithCondition currentFAA message AWSFederatedAccountFailed
                  AWSFederatedAccountStateFailed
      in case callStatusUpdate w obj tr of
           (Some err, tr') \<Rightarrow> (Done (Some err), Some obj, tr')
         | (None, tr') \<Rightarrow> (Done None, Some obj, tr'))"

definition faaReconcile_attach ::
  "world \<Rightarrow> AWSFederatedRole \<Rightarrow> AWSFederatedAccountAccess \<Rightarrow> string \<Rightarrow> string \<Rightarrow> event list
     \<Rightarrow> faa_result"
where
  "faaReconcile_attach w requestedRole currentFAA uidLabel accountID tr =
     (case createOrUpdateIAMPolicy w requestedRole currentFAA tr of
        (Some err, tr1) \<Rightarrow> failStatus w currentFAA ''Failed to create custom policy'' tr1
      | (None, tr1) \<Rightarrow>
     (case createOrUpdateIAMRole w requestedRole currentFAA tr1 of
        (Inl err, tr2) \<Rightarrow> failStatus w currentFAA ''Failed to create role'' tr2
      | (Inr roleName, tr2) \<Rightarrow>
     (let faa1 = currentFAA
                   \<lparr>ConsoleURL := ''https://signin.aws.amazon.com/switchrole?account='' @ accountID
                                   @ ''&roleName='' @ roleName\<rparr>;
          policyArns = createPolicyArns accountID (AWSManagedPolicies requestedRole) True;
          customPolicy = [customPolicyName (afrAWSCustomPolicy requestedRole) @ ''-'' @ uidLabel];
          customerPolArns = createPolicyArns accountID customPolicy False;
          policyArns' = policyArns @ [hd customerPolArns]
      in
      case attachIAMPolices w (faaRoleName faa1 @ ''-'' @ uidLabel) policyArns' tr2 of
        (Some err, tr3) \<Rightarrow> failStatus w faa1 ''Failed to attach policies to role'' tr3
      | (None, tr3) \<Rightarrow>
          (let obj = SetStatuswithCondition faa1 ''Account Access Ready'' AWSFederatedAccountReady
                       AWSFederatedAccountStateReady
           in case callStatusUpdate w obj tr3 of
                (err, tr4) \<Rightarrow> (Done err, Some obj, tr4)))))"

definition faaReconcile_provision ::
  "world \<Rightarrow> AWSFederatedRole \<Rightarrow> AWSFederatedAccountAccess \<Rightarrow> event list \<Rightarrow> faa_result"
where
  "faaReconcile_provision w requestedRole currentFAA tr =
     (if faaState currentFAA = AWSFederatedAccountStateReady
         \<or> faaState currentFAA = AWSFederatedAccountStateFailed
      then (Done None, Some currentFAA, tr)
      else
     (case (if \<not> hasLabel currentFAA (UIDLabel w) then
              (let obj = currentFAA
                           \<lparr>faaLabels := JoinLabelMaps (faaLabels currentFAA)
                                           [''uid'' \<mapsto> GenerateShortUID w]\<rparr>
               in case callUpdate w obj tr of
                    (Some err, tr') \<Rightarrow> Inl (Done (Some err), Some obj, tr')
                  | (None, tr') \<Rightarrow> Inr (obj, tr'))
            else Inr (currentFAA, tr)) of
        Inl res \<Rightarrow> res
      | Inr (faa1, tr1) \<Rightarrow>
     (case faaLabels faa1 (UIDLabel w) of
        None \<Rightarrow> (Done None, Some faa1, tr1)
      | Some uidLabel \<Rightarrow>
     (case callGetClient w
             (FromSecret (faaSecretName faa1) (faaSecretNamespace faa1)
                (GetDefaultRegion (isFedramp w))) tr1 of
        (Some err, tr2) \<Rightarrow> (Done (Some err), Some faa1, tr2)
      | (None, tr2) \<Rightarrow>
     (case callGetCallerIdentity w tr2 of
        (Inl err, tr3) \<Rightarrow>
          failStatus w faa1 ''Failed to get account ID information'' tr3
      | (Inr accountID, tr3) \<Rightarrow>
     (case (if \<not> hasLabel faa1 (AccountIDLabel w) then
              (let obj = faa1\<lparr>faaLabels := JoinLabelMaps (faaLabels faa1)
                                             [''awsAccountID'' \<mapsto> accountID]\<rparr>
               in case callUpdate w obj tr3 of
                    (Some err, tr') \<Rightarrow> Inl (Done (Some err), Some obj, tr')
                  | (None, tr') \<Rightarrow> Inr (obj, tr'))
            else Inr (faa1, tr3)) of
        Inl res \<Rightarrow> res
      | Inr (faa2, tr4) \<Rightarrow>
          faaReconcile_attach w requestedRole faa2 uidLabel accountID tr4))))))"

definition faaReconcile :: "nat \<Rightarrow> world \<Rightarrow> faa_result" where
  "faaReconcile fuel w =
     (case GetFAA (kube w) of
        Inl err \<Rightarrow> (if IsNotFound err then (Done None, None, []) else (Done (Some err), None, []))
      | Inr currentFAA \<Rightarrow>
     (case GetRequestedRole (kube w) of
        Inl err \<Rightarrow>
          (if IsNotFound err then failStatus w currentFAA ''Requested role does not exist'' []
           else (Done (Some err), Some currentFAA, []))
      | Inr requestedRole \<Rightarrow>
          (if \<not> Contains (faaFinalizers currentFAA) (Finalizer w) then
             (case addFinalizer w currentFAA [] of (err, obj, tr) \<Rightarrow> (Done err, Some obj, tr))
           else
             (case faaReconcile_deletion fuel w currentFAA requestedRole [] of
                Inl res \<Rightarrow> res
              | Inr (faa1, tr1) \<Rightarrow> faaReconcile_provision w requestedRole faa1 tr1))))"

section \<open>Federated role controller\<close>

definition awsSecretName :: string where
  "awsSecretName = ''aws-account-operator-credentials''"

definition callUpdateRole ::
  "world \<Rightarrow> AWSFederatedRole \<Rightarrow> event list \<Rightarrow> go_error option \<times> event list" where
  "callUpdateRole w obj tr = (UpdateRole (kube w) (length tr) obj, tr @ [EvUpdateRole obj])"

definition callStatusUpdateRole ::
  "world \<Rightarrow> AWSFederatedRole \<Rightarrow> event list \<Rightarrow> go_error option \<times> event list" where
  "callStatusUpdateRole w obj tr =
     (StatusUpdateRole (kube w) (length tr) obj, tr @ [EvStatusUpdateRole obj])"

definition callFinalizeFederateRole ::
  "world \<Rightarrow> AWSFederatedRole \<Rightarrow> event list \<Rightarrow> go_error option \<times> event list" where
  "callFinalizeFederateRole w obj tr =
     (finalizeFederateRole w (length tr) obj, tr @ [EvFinalizeFederateRole obj])"

text \<open>
  Modelled from the spec: \<open>addFinalizer\<close> and \<open>removeFinalizer\<close> of the role reconciler
  are missing. The spec's finalizer manager adds the marker on first observation and
  removes it after teardown; each writes the resource back to the store.
\<close>

definition afr_addFinalizer ::
  "world \<Rightarrow> AWSFederatedRole \<Rightarrow> event list \<Rightarrow> go_error option \<times> AWSFederatedRole \<times> event list"
where
  "afr_addFinalizer w instance tr =
     (let obj = instance\<lparr>afrFinalizers := afrFinalizers instance @ [Finalizer w]\<rparr>
      in case callUpdateRole w obj tr of (err, tr') \<Rightarrow> (err, obj, tr'))"

definition afr_removeFinalizer ::
  "world \<Rightarrow> AWSFederatedRole \<Rightarrow> string \<Rightarrow> event list
     \<Rightarrow> go_error option \<times> AWSFederatedRole \<times> event list"
where
  "afr_removeFinalizer w instance finalizerName tr =
     (let obj = instance\<lparr>afrFinalizers := Remove (afrFinalizers instance) finalizerName\<rparr>
      in case callUpdateRole w obj tr of (err, tr') \<Rightarrow> (err, obj, tr'))"

text \<open>
  How a pass of the role reconciler ends: it returns an error or \<open>nil\<close>, it is still
  paginating when the bound on pages is reached, or it dereferences the \<open>nil\<close> marker of
  a page that says it is truncated.
\<close>

datatype 'a afr_exit = AfrReturn 'a | AfrRunning | AfrNilMarker

text \<open>
  \<open>getAllPolicies\<close>: the first request has no marker; every later one carries
  \<open>*output.Marker\<close> of the page before.
\<close>

fun getAllPoliciesLoop ::
  "nat \<Rightarrow> world \<Rightarrow> string option \<Rightarrow> Policy list \<Rightarrow> event list
     \<Rightarrow> (go_error + Policy list) afr_exit \<times> event list"
where
  "getAllPoliciesLoop 0 w marker policies tr = (AfrRunning, tr)"
| "getAllPoliciesLoop (Suc n) w marker policies tr =
     (case callListPolicies w None marker tr of
        (Inl err, tr1) \<Rightarrow> (AfrReturn (Inl err), tr1)
      | (Inr output, tr1) \<Rightarrow>
          (let policies' = policies @ Policies output
           in if lpIsTruncated output then
                (case lpMarker output of
                   None \<Rightarrow> (AfrNilMarker, tr1)
                 | Some m \<Rightarrow> getAllPoliciesLoop n w (Some m) policies' tr1)
              else (AfrReturn (Inr policies'), tr1)))"

definition getAllPolicies ::
  "nat \<Rightarrow> world \<Rightarrow> event list \<Rightarrow> (go_error + Policy list) afr_exit \<times> event list" where
  "getAllPolicies fuel w tr = getAllPoliciesLoop fuel w None [] tr"

definition buildPolicyNameSlice :: "Policy list \<Rightarrow> string list" where
  "buildPolicyNameSlice policies = map PolicyName policies"

fun policyInSlice :: "string \<Rightarrow> string list \<Rightarrow> bool" where
  "policyInSlice policy [] = False"
| "policyInSlice policy (namedPolicy # policyList) =
     (if namedPolicy = policy then True else policyInSlice policy policyList)"

type_synonym afr_result = "go_error option afr_exit \<times> AWSFederatedRole option \<times> event list"

text \<open>The status update that ends a validation: \<open>Status().Update\<close>, then \<open>return nil\<close>.\<close>

definition afr_updateStatus :: "world \<Rightarrow> AWSFederatedRole \<Rightarrow> event list \<Rightarrow> afr_result" where
  "afr_updateStatus w instance tr =
     (case callStatusUpdateRole w instance tr of
        (err, tr') \<Rightarrow> (AfrReturn err, Some instance, tr'))"

text \<open>
  The \<open>for _, policy := range instance.Spec.AWSManagedPolicies\<close> loop: the first
  requested name missing from the catalogue.
\<close>

definition firstMissingPolicy :: "string list \<Rightarrow> string list \<Rightarrow> string option" where
  "firstMissingPolicy requested managedPolicyNameList =
     find (\<lambda>policy. \<not> policyInSlice policy managedPolicyNameList) requested"

text \<open>
  \<open>Reconcile\<close> of the role reconciler from the state check to the end (the validation),
  and the function itself.
\<close>

definition afrReconcile_validate ::
  "nat \<Rightarrow> world \<Rightarrow> AWSFederatedRole \<Rightarrow> event list \<Rightarrow> afr_result"
where
  "afrReconcile_validate fuel w instance tr =
     (if afrState instance = AWSFederatedRoleStateValid
         \<or> afrState instance = AWSFederatedRoleStateInvalid
      then (AfrReturn None, Some instance, tr)
      else
     (case callGetClient w
             (FromSecret awsSecretName (AccountCrNamespace w) (GetDefaultRegion (isFedramp w)))
             tr of
        (Some err, tr1) \<Rightarrow> (AfrReturn (Some err), Some instance, tr1)
      | (None, tr1) \<Rightarrow>
     (case MarshalIAMPolicy w instance of
        Inl err \<Rightarrow> (AfrReturn (Some err), Some instance, tr1)
      | Inr jsonPolicy \<Rightarrow>
     (if length (AWSManagedPolicies instance) = 0
         \<and> customPolicyName (afrAWSCustomPolicy instance) = ''''
      then
        afr_updateStatus w
          (instance\<lparr>afrConditions :=
             SetCondition (afrConditions instance) AWSFederatedRoleInvalid ''True''
               ''NoAWSCustomPolicyOrAWSManagedPolicies''
               ''AWSCustomPolicy and/or AWSManagedPolicies do not exist''\<rparr>) tr1
      else
     (case callCreatePolicy w (customPolicyName (afrAWSCustomPolicy instance))
             (customPolicyDescription (afrAWSCustomPolicy instance)) jsonPolicy tr1 of
        (Inl (AwsErr code message), tr2) \<Rightarrow>
          (if code = ''MalformedPolicyDocument'' then
             afr_updateStatus w
               (instance\<lparr>afrState := AWSFederatedRoleStateInvalid,
                         afrConditions :=
                           SetCondition (afrConditions instance) AWSFederatedRoleInvalid ''True''
                             ''InvalidCustomerPolicy'' ''Custom Policy is malformed''\<rparr>) tr2
           else (AfrReturn (Some (AwsErr code message)), Some instance, tr2))
      | (Inl err, tr2) \<Rightarrow> (AfrReturn (Some err), Some instance, tr2)
      | (Inr createOutput, tr2) \<Rightarrow>
     (case callDeletePolicy w (Arn createOutput) tr2 of
        (Some err, tr3) \<Rightarrow> (AfrReturn (Some err), Some instance, tr3)
      | (None, tr3) \<Rightarrow>
     (case getAllPolicies fuel w tr3 of
        (AfrRunning, tr4) \<Rightarrow> (AfrRunning, Some instance, tr4)
      | (AfrNilMarker, tr4) \<Rightarrow> (AfrNilMarker, Some instance, tr4)
      | (AfrReturn (Inl err), tr4) \<Rightarrow> (AfrReturn (Some err), Some instance, tr4)
      | (AfrReturn (Inr managedPolicies), tr4) \<Rightarrow>
          (let managedPolicyNameList = buildPolicyNameSlice managedPolicies
           in case firstMissingPolicy (AWSManagedPolicies instance) managedPolicyNameList of
                Some policy \<Rightarrow>
                  afr_updateStatus w
                    (instance\<lparr>afrState := AWSFederatedRoleStateInvalid,
                              afrConditions :=
                                SetCondition (afrConditions instance) AWSFederatedRoleInvalid
                                  ''True'' ''InvalidManagedPolicy''
                                  ''Managed policy does not exist''\<rparr>) tr4
              | None \<Rightarrow>
                  afr_updateStatus w
                    (instance\<lparr>afrState := AWSFederatedRoleStateValid,
                              afrConditions :=
                                SetCondition (afrConditions instance) AWSFederatedRoleValid
                                  ''True'' ''AllPoliciesValid''
                                  ''All managed and custom policies are validated''\<rparr>)
                    tr4))))))))"

definition afrReconcile :: "nat \<Rightarrow> world \<Rightarrow> afr_result" where
  "afrReconcile fuel w =
     (if isFedramp w then (AfrReturn None, None, [])
      else
     (case GetInstance (kube w) of
        Inl err \<Rightarrow>
          (if IsNotFound err then (AfrReturn None, None, []) else (AfrReturn (Some err), None, []))
      | Inr instance \<Rightarrow>
          (if \<not> Contains (afrFinalizers instance) (Finalizer w) then
             (case afr_addFinalizer w instance [] of
                (err, obj, tr) \<Rightarrow> (AfrReturn err, Some obj, tr))
           else
             (case (if afrDeletionTimestamp instance \<noteq> None
                       \<and> Contains (afrFinalizers instance) (Finalizer w)
                    then
                      (case callFinalizeFederateRole w instance [] of
                         (Some err, tr1) \<Rightarrow> Inl (AfrReturn (Some err), Some instance, tr1)
                       | (None, tr1) \<Rightarrow>
                           (case afr_removeFinalizer w instance (Finalizer w) tr1 of
                              (Some err, obj, tr2) \<Rightarrow> Inl (AfrReturn (Some err), Some obj, tr2)
                            | (None, obj, tr2) \<Rightarrow> Inr (obj, tr2)))
                    else Inr (instance, [])) of
                Inl res \<Rightarrow> res
              | Inr (instance1, tr1) \<Rightarrow> afrReconcile_validate fuel w instance1 tr1))))"

section \<open>Account creation\<close>

text \<open>
  Modelled from the spec: \<open>CreateAccount\<close> of the account controller is missing; the
  repository holds its test only. The spec: it issues a create request, then exactly one
  follow-up status check, and classifies the outcome: a create call that fails with the
  limit-exceeded code gives \<open>AccountLimitExceeded\<close>, with the service code
  \<open>InternalFailure\<close>, with the throttling code \<open>TooManyRequests\<close>, with any other
  code \<open>FailedCreateAccount\<close>; a status \<open>FAILED\<close> with reason
  \<open>ACCOUNT_LIMIT_EXCEEDED\<close> gives \<open>AccountLimitExceeded\<close>, \<open>FAILED\<close> with another
  reason \<open>FailedCreateAccount\<close>, and \<open>SUCCEEDED\<close> is success. The test adds: on every
  error the returned output is the empty \<open>DescribeCreateAccountStatusOutput\<close>, on
  success it is the provider's output, and an error of the status check is returned as
  it is. The spec gives no outcome for a status that is neither \<open>FAILED\<close> nor
  \<open>SUCCEEDED\<close>; there the model answers \<open>Unspecified\<close>.
\<close>

definition ErrCodeConstraintViolationException :: string where
  "ErrCodeConstraintViolationException = ''ConstraintViolationException''"

definition ErrCodeServiceException :: string where
  "ErrCodeServiceException = ''ServiceException''"

definition ErrCodeTooManyRequestsException :: string where
  "ErrCodeTooManyRequestsException = ''TooManyRequestsException''"

datatype account_error =
    ErrAwsAccountLimitExceeded
  | ErrAwsInternalFailure
  | ErrAwsTooManyRequests
  | ErrAwsFailedCreateAccount
  | ProviderError go_error

record CreateAccountStatus =
  casId :: "string option"
  casState :: "string option"
  casFailureReason :: "string option"

record DescribeCreateAccountStatusOutput =
  dcasCreateAccountStatus :: "CreateAccountStatus option"

definition emptyDescribeOutput :: DescribeCreateAccountStatusOutput where
  "emptyDescribeOutput = \<lparr>dcasCreateAccountStatus = None\<rparr>"

record account_client =
  CreateAccountCall :: "string \<Rightarrow> string \<Rightarrow> go_error + CreateAccountStatus"
  DescribeCreateAccountStatus :: "string option \<Rightarrow> go_error + CreateAccountStatus"

datatype account_call = CallCreateAccount string string | CallDescribeStatus "string option"

datatype 'a specified = Specified 'a | Unspecified

definition classifyCreateError :: "go_error \<Rightarrow> account_error" where
  "classifyCreateError err =
     (case err of
        AwsErr code message \<Rightarrow>
          (if code = ErrCodeConstraintViolationException then ErrAwsAccountLimitExceeded
           else if code = ErrCodeServiceException then ErrAwsInternalFailure
           else if code = ErrCodeTooManyRequestsException then ErrAwsTooManyRequests
           else ErrAwsFailedCreateAccount)
      | _ \<Rightarrow> ErrAwsFailedCreateAccount)"

definition CreateAccount ::
  "account_client \<Rightarrow> string \<Rightarrow> string
     \<Rightarrow> (DescribeCreateAccountStatusOutput \<times> account_error option) specified \<times> account_call list"
where
  "CreateAccount client accountName accountEmail =
     (case CreateAccountCall client accountName accountEmail of
        Inl err \<Rightarrow>
          (Specified (emptyDescribeOutput, Some (classifyCreateError err)),
           [CallCreateAccount accountName accountEmail])
      | Inr createStatus \<Rightarrow>
          (let calls = [CallCreateAccount accountName accountEmail,
                        CallDescribeStatus (casId createStatus)]
           in case DescribeCreateAccountStatus client (casId createStatus) of
                Inl err \<Rightarrow> (Specified (emptyDescribeOutput, Some (ProviderError err)), calls)
              | Inr status \<Rightarrow>
                  (if casState status = Some ''FAILED'' then
                     (if casFailureReason status = Some ''ACCOUNT_LIMIT_EXCEEDED''
                      then (Specified (emptyDescribeOutput, Some ErrAwsAccountLimitExceeded), calls)
                      else (Specified (emptyDescribeOutput, Some ErrAwsFailedCreateAccount), calls))
                   else if casState status = Some ''SUCCEEDED'' then
                     (Specified (\<lparr>dcasCreateAccountStatus = Some status\<rparr>, None), calls)
                   else (Unspecified, calls))))"

section \<open>Notions used in the statements\<close>

text \<open>
  A chain of single parents: the provider answers \<open>ListParents\<close> for \<open>awsId\<close> with
  exactly the first element, for that element with exactly the second, and so on.
\<close>

fun single_parent_chain :: "org_client \<Rightarrow> string \<Rightarrow> string list \<Rightarrow> bool" where
  "single_parent_chain client awsId [] = True"
| "single_parent_chain client awsId (x # xs) =
     (ListParents client awsId = Inr [x] \<and> single_parent_chain client x xs)"

text \<open>
  Where an error of the walk comes from: the provider returned it from \<open>ListParents\<close>,
  or some identifier has more than one parent.
\<close>

definition walk_error_origin :: "org_client \<Rightarrow> go_error \<Rightarrow> bool" where
  "walk_error_origin client e \<longleftrightarrow>
     (\<exists>i. ListParents client i = Inl e) \<or>
     (\<exists>i ps. ListParents client i = Inr ps \<and> length ps > 1
        \<and> e = ErrorsNew (''More than 1 parents found for Id '' @ i))"

text \<open>The error \<open>ValidateAccountTags\<close> returns for the result of a tag or untag call.\<close>

definition tagFailed :: "go_error option \<Rightarrow> go_error option" where
  "tagFailed r = map_option (AccountValidationError AccountTagFailed) r"

section \<open>Concrete organizations\<close>

definition isPool :: "string \<Rightarrow> bool" where
  "isPool s \<longleftrightarrow> s = ''ou-pool''"

text \<open>The account is a direct child of the pool OU.\<close>

definition direct_child_org :: org_client where
  "direct_child_org =
     \<lparr>ListParents = (\<lambda>i. if i = ''111111111111'' then Inr [''ou-pool''] else Inr []),
      ListTagsForResource = (\<lambda>i. Inr []),
      UntagResource = (\<lambda>i ks. None),
      TagResource = (\<lambda>i ts. None)\<rparr>"

text \<open>The account is in an OU that is itself a child of the pool OU.\<close>

definition nested_child_org :: org_client where
  "nested_child_org =
     \<lparr>ListParents = (\<lambda>i. if i = ''111111111111'' then Inr [''ou-claimed'']
                         else if i = ''ou-claimed'' then Inr [''ou-pool''] else Inr []),
      ListTagsForResource = (\<lambda>i. Inr []),
      UntagResource = (\<lambda>i ks. None),
      TagResource = (\<lambda>i ts. None)\<rparr>"

text \<open>The account is a direct child of the organization's root, which is not the pool OU.\<close>

definition foreign_root_org :: org_client where
  "foreign_root_org =
     \<lparr>ListParents = (\<lambda>i. if i = ''111111111111'' then Inr [''r-root''] else Inr []),
      ListTagsForResource = (\<lambda>i. Inr []),
      UntagResource = (\<lambda>i ks. None),
      TagResource = (\<lambda>i ts. None)\<rparr>"

text \<open>An account with the given tags, whose \<open>TagResource\<close> call answers \<open>tagResult\<close>.\<close>

definition tagged_org :: "(string \<times> string) list \<Rightarrow> go_error option \<Rightarrow> org_client" where
  "tagged_org tags tagResult =
     \<lparr>ListParents = (\<lambda>i. Inr []),
      ListTagsForResource = (\<lambda>i. Inr tags),
      UntagResource = (\<lambda>i ks. None),
      TagResource = (\<lambda>i ts. tagResult)\<rparr>"

section \<open>Notions used in the statements about the reconcilers\<close>

text \<open>
  \<open>appends P tr tr'\<close>: the trace \<open>tr'\<close> is \<open>tr\<close> followed by events that all satisfy
  \<open>P\<close>.
\<close>

definition appends :: "(event \<Rightarrow> bool) \<Rightarrow> event list \<Rightarrow> event list \<Rightarrow> bool" where
  "appends P tr tr' \<longleftrightarrow> (\<exists>new. tr' = tr @ new \<and> list_all P new)"

text \<open>
  The provider listed a policy with this name and this ARN, as a policy attached to some
  role or as a policy of the account, at some point.
\<close>

definition listed_as :: "world \<Rightarrow> string \<Rightarrow> string \<Rightarrow> bool" where
  "listed_as w name arn \<longleftrightarrow>
     (\<exists>n roleName marker out p.
         ListAttachedRolePolicies (aws w) n roleName marker = Inr out
         \<and> p \<in> set (AttachedPolicies out) \<and> apPolicyName p = name \<and> apPolicyArn p = arn)
     \<or> (\<exists>n scope marker out p.
         ListPolicies (aws w) n scope marker = Inr out
         \<and> p \<in> set (Policies out) \<and> PolicyName p = name \<and> Arn p = arn)"

text \<open>
  The events a teardown may issue: it builds clients, assumes a role, lists and detaches
  policies, deletes the role, and deletes a policy only when the provider listed that
  policy under the name \<open>expected\<close>. It writes nothing to the store and creates nothing.
\<close>

fun teardown_event :: "world \<Rightarrow> string \<Rightarrow> event \<Rightarrow> bool" where
  "teardown_event w expected (EvDeletePolicy arn) = listed_as w expected arn"
| "teardown_event w expected (EvGetClient input) = True"
| "teardown_event w expected (EvAssumeRole roleArn sessionName) = True"
| "teardown_event w expected (EvListAttachedRolePolicies roleName marker) = True"
| "teardown_event w expected (EvListPolicies scope marker) = True"
| "teardown_event w expected (EvDetachRolePolicy roleName arn) = True"
| "teardown_event w expected (EvDeleteRole roleName) = True"
| "teardown_event w expected _ = False"

text \<open>A write of the federated account access resource to the store.\<close>

fun store_write :: "event \<Rightarrow> bool" where
  "store_write (EvUpdate obj) = True"
| "store_write (EvStatusUpdate obj) = True"
| "store_write _ = False"

text \<open>
  The events of the role reconciler's finalizer and deletion handling; every other event
  belongs to the validation.
\<close>

fun finalizer_handling :: "event \<Rightarrow> bool" where
  "finalizer_handling (EvUpdateRole obj) = True"
| "finalizer_handling (EvFinalizeFederateRole obj) = True"
| "finalizer_handling _ = False"

text \<open>No condition on the events appended.\<close>

abbreviation (input) any_event :: "event \<Rightarrow> bool" where "any_event \<equiv> (\<lambda>ev. True)"

section \<open>Concrete worlds\<close>

text \<open>A provider on which every call succeeds, with no policies attached or listed.\<close>

definition ok_aws :: aws_client where
  "ok_aws =
     \<lparr>GetCallerIdentity = (\<lambda>n. Inr ''123456789012''),
      CreatePolicy = (\<lambda>n name description doc.
         Inr \<lparr>PolicyName = name, Arn = ''arn:aws:iam::123456789012:policy/'' @ name\<rparr>),
      DeletePolicy = (\<lambda>n arn. None),
      CreateRole = (\<lambda>n name description doc. Inr name),
      DeleteRole = (\<lambda>n name. None),
      AttachRolePolicy = (\<lambda>n arn roleName. None),
      DetachRolePolicy = (\<lambda>n roleName arn. None),
      AssumeRole = (\<lambda>n roleArn sessionName.
         Inr \<lparr>AccessKeyId = ''AKIAEXAMPLE'', SecretAccessKey = ''secret'', SessionToken = ''token''\<rparr>),
      ListAttachedRolePolicies = (\<lambda>n roleName marker.
         Inr \<lparr>AttachedPolicies = [], apIsTruncated = False, apMarker = None\<rparr>),
      ListPolicies = (\<lambda>n scope marker.
         Inr \<lparr>Policies = [], lpIsTruncated = False, lpMarker = None\<rparr>)\<rparr>"

text \<open>A validated template with one custom policy and one managed policy.\<close>

definition example_role :: AWSFederatedRole where
  "example_role =
     \<lparr>afrName = ''read-only'',
      afrFinalizers = [''finalizer.aws.managed.openshift.io''],
      afrDeletionTimestamp = None,
      RoleDisplayName = ''Read Only'',
      RoleDescription = ''Read only access'',
      afrAWSCustomPolicy =
        \<lparr>customPolicyName = ''ReadOnly'',
         customPolicyDescription = ''View the account'',
         Statements = [\<lparr>Effect = ''Allow'', Action = [''aws-portal:ViewAccount''],
                        Resource = [''*''], StatementCondition = None, Principal = None\<rparr>]\<rparr>,
      AWSManagedPolicies = [''AmazonS3ReadOnlyAccess''],
      afrState = AWSFederatedRoleStateValid,
      afrConditions = []\<rparr>"

text \<open>A request for that template, with its finalizer and both labels, not yet provisioned.\<close>

definition example_faa :: AWSFederatedAccountAccess where
  "example_faa =
     \<lparr>faaName = ''access-1'',
      faaFinalizers = [''finalizer.aws.managed.openshift.io''],
      faaDeletionTimestamp = None,
      faaLabels = [''uid'' \<mapsto> ''abc123'', ''awsAccountID'' \<mapsto> ''123456789012''],
      faaRoleName = ''read-only'',
      faaRoleNamespace = ''aws-account-operator'',
      faaSecretName = ''customer-credentials'',
      faaSecretNamespace = ''customer'',
      ExternalCustomerAWSIAMARN = ''arn:aws:iam::999999999999:user/alice'',
      faaState = AWSFederatedAccountStateNone,
      faaConditions = [],
      ConsoleURL = ''''\<rparr>"

text \<open>
  The world with the given provider, in which the store holds the given request and
  template and accepts every write.
\<close>

definition example_world ::
  "aws_client \<Rightarrow> AWSFederatedAccountAccess \<Rightarrow> AWSFederatedRole \<Rightarrow> world" where
  "example_world client faa role =
     \<lparr>aws = client,
      kube = \<lparr>GetFAA = Inr faa, GetRequestedRole = Inr role,
              Update = (\<lambda>n obj. None), StatusUpdate = (\<lambda>n obj. None),
              GetInstance = Inr role,
              UpdateRole = (\<lambda>n obj. None), StatusUpdateRole = (\<lambda>n obj. None)\<rparr>,
      GetClient = (\<lambda>n input. None),
      Finalizer = ''finalizer.aws.managed.openshift.io'',
      UIDLabel = ''uid'',
      AccountIDLabel = ''awsAccountID'',
      GenerateShortUID = ''abc123'',
      AwsSecretName = ''aws-account-operator-credentials'',
      AccountCrNamespace = ''aws-account-operator'',
      isFedramp = False,
      MarshalIAMPolicy = (\<lambda>role. Inr (PolicyDocument ''2012-10-17''
                                        (Statements (afrAWSCustomPolicy role)))),
      finalizeFederateRole = (\<lambda>n role. None)\<rparr>"

text \<open>The provider refuses the custom policy as malformed.\<close>

definition malformed_policy_aws :: aws_client where
  "malformed_policy_aws =
     ok_aws\<lparr>CreatePolicy := (\<lambda>n name description doc.
              Inl (AwsErr ''MalformedPolicyDocument'' ''Syntax errors in policy.''))\<rparr>"

text \<open>The provider lets the operator assume neither administrative role.\<close>

definition access_denied_aws :: aws_client where
  "access_denied_aws =
     ok_aws\<lparr>AssumeRole := (\<lambda>n roleArn sessionName.
              Inl (AwsErr ''AccessDenied'' ''not authorized to perform sts:AssumeRole''))\<rparr>"

text \<open>
  The role has two policies attached: the custom policy of the request and a managed one.
\<close>

definition attached_aws :: aws_client where
  "attached_aws =
     ok_aws\<lparr>ListAttachedRolePolicies := (\<lambda>n roleName marker.
              Inr \<lparr>AttachedPolicies =
                     [\<lparr>apPolicyName = ''ReadOnly-abc123'',
                       apPolicyArn = ''arn:aws:iam::123456789012:policy/ReadOnly-abc123''\<rparr>,
                      \<lparr>apPolicyName = ''AmazonS3ReadOnlyAccess'',
                       apPolicyArn = ''arn:aws:iam::aws:policy/AmazonS3ReadOnlyAccess''\<rparr>],
                   apIsTruncated = False, apMarker = None\<rparr>)\<rparr>"

text \<open>A template whose custom policy name already ends in the request's \<open>-uid\<close>.\<close>

definition suffixed_role :: AWSFederatedRole where
  "suffixed_role =
     example_role\<lparr>afrAWSCustomPolicy :=
       (afrAWSCustomPolicy example_role)\<lparr>customPolicyName := ''ReadOnly-abc123''\<rparr>\<rparr>"

text \<open>The request marked for deletion.\<close>

definition deleted_faa :: AWSFederatedAccountAccess where
  "deleted_faa = example_faa\<lparr>faaDeletionTimestamp := Some 1\<rparr>"

text \<open>
  The request marked for deletion before any pass gave it a label: it has the finalizer
  and no state.
\<close>

definition unlabelled_deleted_faa :: AWSFederatedAccountAccess where
  "unlabelled_deleted_faa = example_faa\<lparr>faaDeletionTimestamp := Some 1, faaLabels := Map.empty\<rparr>"

text \<open>
  The request marked for deletion after a pass gave it the uid label and failed before
  the account id was known.
\<close>

definition uid_only_deleted_faa :: AWSFederatedAccountAccess where
  "uid_only_deleted_faa =
     example_faa\<lparr>faaDeletionTimestamp := Some 1, faaLabels := [''uid'' \<mapsto> ''abc123''],
                 faaState := AWSFederatedAccountStateFailed\<rparr>"

text \<open>The request as the store first shows it: no finalizer, no labels.\<close>

definition fresh_faa :: AWSFederatedAccountAccess where
  "fresh_faa = example_faa\<lparr>faaFinalizers := [], faaLabels := Map.empty\<rparr>"

text \<open>
  The world in which the store holds that request but not the template it names: the
  lookup of the template answers not-found.
\<close>

definition missing_template_world :: world where
  "missing_template_world =
     (example_world ok_aws fresh_faa example_role)
       \<lparr>kube := (kube (example_world ok_aws fresh_faa example_role))
                  \<lparr>GetRequestedRole := Inl K8sNotFound\<rparr>\<rparr>"

text \<open>That request after the pass that did not find its template.\<close>

definition orphaned_faa :: AWSFederatedAccountAccess where
  "orphaned_faa =
     fresh_faa
       \<lparr>faaState := AWSFederatedAccountStateFailed,
        faaConditions := [\<lparr>cType = AWSFederatedAccountFailed, cStatus = ''True'',
                           cReason = ''Failed'',
                           cMessage = ''Requested role does not exist''\<rparr>]\<rparr>"

text \<open>The request after a pass that ended with the state \<open>Ready\<close>.\<close>

definition provisioned_faa :: AWSFederatedAccountAccess where
  "provisioned_faa =
     example_faa
       \<lparr>faaState := AWSFederatedAccountStateReady,
        faaConditions := [\<lparr>cType = AWSFederatedAccountReady, cStatus = ''True'',
                           cReason = ''Ready'', cMessage = ''Account Access Ready''\<rparr>],
        ConsoleURL := ''https://signin.aws.amazon.com/switchrole?account=123456789012&roleName=read-only-abc123''\<rparr>"

text \<open>A template that declares no managed policy and no custom policy, not yet validated.\<close>

definition empty_role :: AWSFederatedRole where
  "empty_role =
     example_role
       \<lparr>afrAWSCustomPolicy :=
          \<lparr>customPolicyName = '''', customPolicyDescription = '''', Statements = []\<rparr>,
        AWSManagedPolicies := [],
        afrState := AWSFederatedRoleStateNone\<rparr>"

text \<open>That template with the condition the reconciler records for it.\<close>

definition noted_role :: AWSFederatedRole where
  "noted_role =
     empty_role
       \<lparr>afrConditions :=
          [\<lparr>cType = AWSFederatedRoleInvalid, cStatus = ''True'',
            cReason = ''NoAWSCustomPolicyOrAWSManagedPolicies'',
            cMessage = ''AWSCustomPolicy and/or AWSManagedPolicies do not exist''\<rparr>]\<rparr>"

text \<open>
  An account provider that answers the create call with \<open>created\<close> and the status
  check with \<open>described\<close>.
\<close>

definition account_provider ::
  "go_error + CreateAccountStatus \<Rightarrow> go_error + CreateAccountStatus \<Rightarrow> account_client" where
  "account_provider created described =
     \<lparr>CreateAccountCall = (\<lambda>name email. created),
      DescribeCreateAccountStatus = (\<lambda>id. described)\<rparr>"

definition requested :: CreateAccountStatus where
  "requested = \<lparr>casId = Some ''ID'', casState = None, casFailureReason = None\<rparr>"

definition limit_failed :: CreateAccountStatus where
  "limit_failed =
     \<lparr>casId = None, casState = Some ''FAILED'', casFailureReason = Some ''ACCOUNT_LIMIT_EXCEEDED''\<rparr>"

definition succeeded :: CreateAccountStatus where
  "succeeded = \<lparr>casId = None, casState = Some ''SUCCEEDED'', casFailureReason = None\<rparr>"

section \<open>The walk up the organizational units\<close>

text \<open>Along a chain of single parents the walk stops at the first one the predicate accepts.\<close>

lemma walk_along_chain:
  "single_parent_chain client a ps \<Longrightarrow> ps \<noteq> [] \<Longrightarrow> \<forall>x \<in> set (butlast ps). \<not> p x
   \<Longrightarrow> p (last ps)
   \<Longrightarrow> ParentsTillPredicate client p a acc = Some (None, acc @ ps)"
proof (induction ps arbitrary: a acc)
  case Nil
  then show ?case by simp
next
  case (Cons x xs)
  from Cons.prems(1) have lp: "ListParents client a = Inr [x]"
    and ch: "single_parent_chain client x xs"
    by simp_all
  show ?case
  proof (cases "xs = []")
    case True
    with Cons.prems(4) have "p x" by simp
    with lp True show ?thesis
      by (subst ParentsTillPredicate.simps) simp
  next
    case False
    with Cons.prems(3) have np: "\<not> p x" by simp
    from False Cons.prems(3) have b: "\<forall>y \<in> set (butlast xs). \<not> p y" by simp
    from False Cons.prems(4) have l: "p (last xs)" by simp
    have "ParentsTillPredicate client p x (acc @ [x]) = Some (None, (acc @ [x]) @ xs)"
      by (rule Cons.IH [OF ch False b l])
    with lp np show ?thesis
      by (subst ParentsTillPredicate.simps) simp
  qed
qed

text \<open>
  A level with no parents ends the walk without error, with the parents collected so far.
\<close>

lemma walk_zero_parents:
  "single_parent_chain client a ps \<Longrightarrow> \<forall>x \<in> set ps. \<not> p x
   \<Longrightarrow> ListParents client (last (a # ps)) = Inr []
   \<Longrightarrow> ParentsTillPredicate client p a acc = Some (None, acc @ ps)"
proof (induction ps arbitrary: a acc)
  case Nil
  then show ?case by (subst ParentsTillPredicate.simps) simp
next
  case (Cons x xs)
  from Cons.prems(1) have lp: "ListParents client a = Inr [x]"
    and ch: "single_parent_chain client x xs"
    by simp_all
  from Cons.prems(2) have np: "\<not> p x" and b: "\<forall>y \<in> set xs. \<not> p y" by simp_all
  from Cons.prems(3) have z: "ListParents client (last (x # xs)) = Inr []" by simp
  have "ParentsTillPredicate client p x (acc @ [x]) = Some (None, (acc @ [x]) @ xs)"
    by (rule Cons.IH [OF ch b z])
  with lp np show ?case
    by (subst ParentsTillPredicate.simps) simp
qed

text \<open>A level with more than one parent ends the walk with the error of the walk's own.\<close>

lemma walk_many_parents:
  "single_parent_chain client a ps \<Longrightarrow> \<forall>x \<in> set ps. \<not> p x
   \<Longrightarrow> ListParents client (last (a # ps)) = Inr qs \<Longrightarrow> length qs > 1
   \<Longrightarrow> ParentsTillPredicate client p a acc =
        Some (Some (ErrorsNew (''More than 1 parents found for Id '' @ last (a # ps))), acc @ ps)"
proof (induction ps arbitrary: a acc)
  case Nil
  then show ?case by (subst ParentsTillPredicate.simps) auto
next
  case (Cons x xs)
  from Cons.prems(1) have lp: "ListParents client a = Inr [x]"
    and ch: "single_parent_chain client x xs"
    by simp_all
  from Cons.prems(2) have np: "\<not> p x" and b: "\<forall>y \<in> set xs. \<not> p y" by simp_all
  from Cons.prems(3) have z: "ListParents client (last (x # xs)) = Inr qs" by simp
  have "ParentsTillPredicate client p x (acc @ [x]) =
          Some (Some (ErrorsNew (''More than 1 parents found for Id '' @ last (x # xs))),
                (acc @ [x]) @ xs)"
    by (rule Cons.IH [OF ch b z Cons.prems(4)])
  with lp np show ?case
    by (subst ParentsTillPredicate.simps) simp
qed

text \<open>
  Whenever the walk returns an error, the provider returned that error or some level had
  more than one parent.
\<close>

lemma walk_error_cases:
  assumes "ParentsTillPredicate client p a acc = Some r"
  shows "fst r = Some e \<longrightarrow> walk_error_origin client e"
proof (rule ParentsTillPredicate.raw_induct
    [where P = "\<lambda>client p a acc r. fst r = Some e \<longrightarrow> walk_error_origin client e", OF _ assms],
    goal_cases)
  case (1 walk client p awsId parents r)
  show ?case
  proof (cases "ListParents client awsId")
    case (Inl err)
    with 1(2) show ?thesis by (auto simp: walk_error_origin_def)
  next
    case (Inr ps)
    show ?thesis
    proof (cases "length ps = 1 \<and> \<not> p (ps ! 0)")
      case True
      with Inr 1(2) have "walk client p (ps ! 0) (parents @ [ps ! 0]) = Some r"
        by (simp add: Let_def)
      from 1(1) [OF this] show ?thesis .
    next
      case False
      show ?thesis
      proof (cases "length ps > 1")
        case True
        with Inr 1(2)
        have "fst r = Some (ErrorsNew (''More than 1 parents found for Id '' @ awsId))"
          by (auto split: if_splits)
        moreover from Inr True
        have "walk_error_origin client (ErrorsNew (''More than 1 parents found for Id '' @ awsId))"
          unfolding walk_error_origin_def by blast
        ultimately show ?thesis by auto
      next
        case short: False
        with False Inr 1(2) have "fst r = None"
          by (cases "length ps = 0") (auto simp: Let_def split: if_splits)
        then show ?thesis by simp
      qed
    qed
  qed
qed

text \<open>
  Claim C1, as amended. For an account whose cloud account id is set, if the walk up the
  parent chain meets exactly one parent at each level, the first \<open>N - 1\<close> parents do not
  satisfy the pool-OU predicate and the \<open>N\<close>-th does, then \<open>IsAccountInPoolOU\<close> returns,
  and it reports membership exactly when \<open>N = 1\<close>: the account is a member when its
  direct parent is the pool OU, and not a member when the pool OU is two or more levels
  up.
\<close>

theorem IsAccountInPoolOU_after_hops:
  assumes "awsAccountID \<noteq> ''''"
    and "single_parent_chain client awsAccountID ps"
    and "ps \<noteq> []"
    and "\<forall>x \<in> set (butlast ps). \<not> isPoolOU x"
    and "isPoolOU (last ps)"
  shows "IsAccountInPoolOU awsAccountID client isPoolOU = Some (length ps = 1)"
proof -
  have "ParentsTillPredicate client isPoolOU awsAccountID [] = Some (None, [] @ ps)"
    using assms(2-5) by (rule walk_along_chain)
  with assms(1) show ?thesis
    by (simp add: IsAccountInPoolOU_def)
qed

theorem IsAccountInPoolOU_after_hops_witness:
  "''111111111111'' \<noteq> ''''
   \<and> single_parent_chain direct_child_org ''111111111111'' [''ou-pool'']
   \<and> butlast [''ou-pool''] = []
   \<and> isPool (last [''ou-pool''])
   \<and> IsAccountInPoolOU ''111111111111'' direct_child_org isPool = Some True"
  using IsAccountInPoolOU_after_hops [of "''111111111111''" direct_child_org "[''ou-pool'']" isPool]
  by (simp add: direct_child_org_def isPool_def)

text \<open>
  The claim as stated fails for \<open>N = 2\<close>: the account's parent is an OU that does not
  satisfy the predicate, that OU's parent is the pool OU, and the answer is \<open>False\<close>.
\<close>

theorem IsAccountInPoolOU_two_hops_counterexample:
  "''111111111111'' \<noteq> ''''
   \<and> single_parent_chain nested_child_org ''111111111111'' [''ou-claimed'', ''ou-pool'']
   \<and> \<not> isPool ''ou-claimed'' \<and> isPool ''ou-pool''
   \<and> IsAccountInPoolOU ''111111111111'' nested_child_org isPool = Some False"
  by (simp add: IsAccountInPoolOU_def ParentsTillPredicate.simps nested_child_org_def isPool_def)

text \<open>
  Claim C2, at the input where the code departs from it. The account's only parent is the
  organization's root, which is not the pool OU and has no parents. The walk returns
  without error, as the claim says, and its log line says the search for the pool OU is
  exhausted; but \<open>IsAccountInPoolOU\<close> reports the account as a member, because it looks
  only at the number of parents collected.
\<close>

theorem zero_parents_after_one_hop_reported_member:
  "ListParents foreign_root_org ''111111111111'' = Inr [''r-root'']
   \<and> \<not> isPool ''r-root''
   \<and> ListParents foreign_root_org ''r-root'' = Inr []
   \<and> ParentsTillPredicate foreign_root_org isPool ''111111111111'' [] = Some (None, [''r-root''])
   \<and> IsAccountInPoolOU ''111111111111'' foreign_root_org isPool = Some True"
  by (simp add: IsAccountInPoolOU_def ParentsTillPredicate.simps foreign_root_org_def isPool_def)

section \<open>Owner tag validation\<close>

lemma ownerTagLoop_absent:
  "map_of tags ownerKey = None \<Longrightarrow> ownerTagLoop client accountId shardName enabled tags = None"
  by (induction tags) (auto split: if_splits)

text \<open>The first tag with the key \<open>owner\<close> decides.\<close>

lemma ownerTagLoop_present:
  "map_of tags ownerKey = Some v \<Longrightarrow>
   ownerTagLoop client accountId shardName enabled tags =
     (if shardName \<noteq> v then
        (if enabled then
           (case UntagResource client accountId [''owner''] of
              Some err \<Rightarrow>
                Some (Some (AccountValidationError AccountTagFailed err),
                      [CallUntag accountId [''owner'']])
            | None \<Rightarrow>
                Some (map_option (AccountValidationError AccountTagFailed)
                        (TagResource client accountId [(''owner'', shardName)]),
                      [CallUntag accountId [''owner''], CallTag accountId [(''owner'', shardName)]]))
         else
           Some (Some (AccountValidationError IncorrectOwnerTag
                   (ErrorsNew (''Account is not tagged with the correct owner, has '' @ v
                                @ ''; want '' @ shardName))), []))
      else Some (None, []))"
proof (induction tags)
  case Nil
  then show ?case by simp
next
  case (Cons kv tags)
  obtain k w where kv: "kv = (k, w)" by (cases kv)
  show ?case
  proof (cases "ownerKey = k")
    case True
    with Cons.prems kv have "w = v" by simp
    with True kv show ?thesis
      by (simp add: untagAccountOwner_def TagAccount_def split: option.splits)
  next
    case False
    with Cons kv show ?thesis by simp
  qed
qed

lemma tags_absent_enabled:
  "ListTagsForResource client accountId = Inr tags \<Longrightarrow> map_of tags ownerKey = None \<Longrightarrow>
   ValidateAccountTags client accountId shardName True =
         (tagFailed (TagResource client accountId [(''owner'', shardName)]),
          [CallListTags accountId, CallTag accountId [(''owner'', shardName)]])"
  by (simp add: ValidateAccountTags_def ownerTagLoop_absent TagAccount_def tagFailed_def
      split: option.splits)

lemma tags_absent_disabled:
  "ListTagsForResource client accountId = Inr tags \<Longrightarrow> map_of tags ownerKey = None \<Longrightarrow>
   ValidateAccountTags client accountId shardName False =
         (Some (AccountValidationError MissingTag (ErrorsNew ''Account is not tagged with an owner'')),
          [CallListTags accountId])"
  by (simp add: ValidateAccountTags_def ownerTagLoop_absent)

lemma tags_mismatch_enabled:
  "ListTagsForResource client accountId = Inr tags \<Longrightarrow> map_of tags ownerKey = Some v \<Longrightarrow>
   v \<noteq> shardName \<Longrightarrow>
   ValidateAccountTags client accountId shardName True =
         (case UntagResource client accountId [''owner''] of
            Some err \<Rightarrow>
              (Some (AccountValidationError AccountTagFailed err),
               [CallListTags accountId, CallUntag accountId [''owner'']])
          | None \<Rightarrow>
              (tagFailed (TagResource client accountId [(''owner'', shardName)]),
               [CallListTags accountId, CallUntag accountId [''owner''],
                CallTag accountId [(''owner'', shardName)]]))"
  by (auto simp add: ValidateAccountTags_def ownerTagLoop_present tagFailed_def
      split: option.splits)

lemma tags_mismatch_disabled:
  "ListTagsForResource client accountId = Inr tags \<Longrightarrow> map_of tags ownerKey = Some v \<Longrightarrow>
   v \<noteq> shardName \<Longrightarrow>
   ValidateAccountTags client accountId shardName False =
         (Some (AccountValidationError IncorrectOwnerTag
                   (ErrorsNew (''Account is not tagged with the correct owner, has '' @ v
                                @ ''; want '' @ shardName))), [CallListTags accountId])"
  by (auto simp add: ValidateAccountTags_def ownerTagLoop_present)

lemma tags_match:
  "ListTagsForResource client accountId = Inr tags \<Longrightarrow> map_of tags ownerKey = Some shardName \<Longrightarrow>
   ValidateAccountTags client accountId shardName enabled = (None, [CallListTags accountId])"
  by (auto simp add: ValidateAccountTags_def ownerTagLoop_present)

text \<open>
  Claim C6, as amended. When the tags of the account can be listed, \<open>ValidateAccountTags\<close>
  follows the five-case table, where the two cases that write to the provider return no
  error exactly when the calls they issue succeed:
  \<^item> owner tag absent, tagging enabled: one \<open>TagResource\<close> call with \<open>owner = shardName\<close>;
    no error if it succeeds, \<open>AccountTagFailed\<close> with its error otherwise;
  \<^item> absent, tagging disabled: a \<open>MissingTag\<close> error, no call beyond the listing;
  \<^item> present with another value, tagging enabled: \<open>UntagResource\<close> for \<open>owner\<close>, then
    \<open>TagResource\<close>; no error if both succeed, \<open>AccountTagFailed\<close> with the error of the
    first call that fails otherwise (a failed untag is not followed by a tag);
  \<^item> present with another value, tagging disabled: an \<open>IncorrectOwnerTag\<close> error, no
    call beyond the listing;
  \<^item> present and matching: no error, no call beyond the listing.
  With several \<open>owner\<close> tags the first one listed is the one looked at.
\<close>

theorem ValidateAccountTags_truth_table:
  assumes "ListTagsForResource client accountId = Inr tags"
  shows
   "(map_of tags ownerKey = None \<and> accountTagEnabled \<longrightarrow>
       ValidateAccountTags client accountId shardName accountTagEnabled =
         (tagFailed (TagResource client accountId [(''owner'', shardName)]),
          [CallListTags accountId, CallTag accountId [(''owner'', shardName)]]))
    \<and> (map_of tags ownerKey = None \<and> \<not> accountTagEnabled \<longrightarrow>
       ValidateAccountTags client accountId shardName accountTagEnabled =
         (Some (AccountValidationError MissingTag (ErrorsNew ''Account is not tagged with an owner'')),
          [CallListTags accountId]))
    \<and> ((\<exists>v. map_of tags ownerKey = Some v \<and> v \<noteq> shardName) \<and> accountTagEnabled \<longrightarrow>
       ValidateAccountTags client accountId shardName accountTagEnabled =
         (case UntagResource client accountId [''owner''] of
            Some err \<Rightarrow>
              (Some (AccountValidationError AccountTagFailed err),
               [CallListTags accountId, CallUntag accountId [''owner'']])
          | None \<Rightarrow>
              (tagFailed (TagResource client accountId [(''owner'', shardName)]),
               [CallListTags accountId, CallUntag accountId [''owner''],
                CallTag accountId [(''owner'', shardName)]])))
    \<and> ((\<exists>v. map_of tags ownerKey = Some v \<and> v \<noteq> shardName) \<and> \<not> accountTagEnabled \<longrightarrow>
       (\<exists>msg. ValidateAccountTags client accountId shardName accountTagEnabled =
         (Some (AccountValidationError IncorrectOwnerTag (ErrorsNew msg)), [CallListTags accountId])))
    \<and> (map_of tags ownerKey = Some shardName \<longrightarrow>
       ValidateAccountTags client accountId shardName accountTagEnabled =
         (None, [CallListTags accountId]))"
proof (intro conjI impI)
  assume "map_of tags ownerKey = None \<and> accountTagEnabled"
  with assms tags_absent_enabled [of client accountId tags shardName]
  show "ValidateAccountTags client accountId shardName accountTagEnabled =
         (tagFailed (TagResource client accountId [(''owner'', shardName)]),
          [CallListTags accountId, CallTag accountId [(''owner'', shardName)]])"
    by simp
next
  assume "map_of tags ownerKey = None \<and> \<not> accountTagEnabled"
  with assms tags_absent_disabled [of client accountId tags shardName]
  show "ValidateAccountTags client accountId shardName accountTagEnabled =
         (Some (AccountValidationError MissingTag (ErrorsNew ''Account is not tagged with an owner'')),
          [CallListTags accountId])"
    by simp
next
  assume "(\<exists>v. map_of tags ownerKey = Some v \<and> v \<noteq> shardName) \<and> accountTagEnabled"
  then obtain v where "map_of tags ownerKey = Some v" "v \<noteq> shardName" "accountTagEnabled"
    by blast
  with tags_mismatch_enabled [OF assms, of v shardName]
  show "ValidateAccountTags client accountId shardName accountTagEnabled =
         (case UntagResource client accountId [''owner''] of
            Some err \<Rightarrow>
              (Some (AccountValidationError AccountTagFailed err),
               [CallListTags accountId, CallUntag accountId [''owner'']])
          | None \<Rightarrow>
              (tagFailed (TagResource client accountId [(''owner'', shardName)]),
               [CallListTags accountId, CallUntag accountId [''owner''],
                CallTag accountId [(''owner'', shardName)]]))"
    by simp
next
  assume "(\<exists>v. map_of tags ownerKey = Some v \<and> v \<noteq> shardName) \<and> \<not> accountTagEnabled"
  then obtain v where "map_of tags ownerKey = Some v" "v \<noteq> shardName" "\<not> accountTagEnabled"
    by blast
  with tags_mismatch_disabled [OF assms, of v shardName]
  show "\<exists>msg. ValidateAccountTags client accountId shardName accountTagEnabled =
         (Some (AccountValidationError IncorrectOwnerTag (ErrorsNew msg)), [CallListTags accountId])"
    by simp
next
  assume "map_of tags ownerKey = Some shardName"
  with assms show "ValidateAccountTags client accountId shardName accountTagEnabled =
         (None, [CallListTags accountId])"
    by (rule tags_match)
qed

theorem ValidateAccountTags_truth_table_witness:
  "ValidateAccountTags (tagged_org [] None) ''111111111111'' ''hivename'' True =
     (None, [CallListTags ''111111111111'', CallTag ''111111111111'' [(''owner'', ''hivename'')]])
   \<and> ValidateAccountTags (tagged_org [] None) ''111111111111'' ''hivename'' False =
     (Some (AccountValidationError MissingTag (ErrorsNew ''Account is not tagged with an owner'')),
      [CallListTags ''111111111111''])
   \<and> ValidateAccountTags (tagged_org [(''owner'', ''other'')] None) ''111111111111'' ''hivename'' True =
     (None, [CallListTags ''111111111111'', CallUntag ''111111111111'' [''owner''],
             CallTag ''111111111111'' [(''owner'', ''hivename'')]])
   \<and> (\<exists>msg. ValidateAccountTags (tagged_org [(''owner'', ''other'')] None) ''111111111111''
               ''hivename'' False =
     (Some (AccountValidationError IncorrectOwnerTag (ErrorsNew msg)), [CallListTags ''111111111111'']))
   \<and> ValidateAccountTags (tagged_org [(''owner'', ''hivename'')] None) ''111111111111'' ''hivename'' True =
     (None, [CallListTags ''111111111111''])"
  using ValidateAccountTags_truth_table
          [of "tagged_org [] None" "''111111111111''" "[]" True "''hivename''"]
        ValidateAccountTags_truth_table
          [of "tagged_org [] None" "''111111111111''" "[]" False "''hivename''"]
        ValidateAccountTags_truth_table
          [of "tagged_org [(''owner'', ''other'')] None" "''111111111111''" "[(''owner'', ''other'')]"
              True "''hivename''"]
        ValidateAccountTags_truth_table
          [of "tagged_org [(''owner'', ''other'')] None" "''111111111111''" "[(''owner'', ''other'')]"
              False "''hivename''"]
        ValidateAccountTags_truth_table
          [of "tagged_org [(''owner'', ''hivename'')] None" "''111111111111''"
              "[(''owner'', ''hivename'')]" True "''hivename''"]
  by (simp add: tagged_org_def ownerKey_def tagFailed_def)

text \<open>
  The claim as stated fails where the provider refuses the tag call: the owner tag is
  absent and tagging is enabled, and an error is returned.
\<close>

theorem ValidateAccountTags_tag_call_fails_counterexample:
  "ListTagsForResource (tagged_org [] (Some (AwsErr ''TooManyRequestsException'' ''throttled'')))
       ''111111111111'' = Inr []
   \<and> map_of ([] :: (string \<times> string) list) ownerKey = None
   \<and> fst (ValidateAccountTags (tagged_org [] (Some (AwsErr ''TooManyRequestsException'' ''throttled'')))
        ''111111111111'' ''hivename'' True)
       = Some (AccountValidationError AccountTagFailed (AwsErr ''TooManyRequestsException'' ''throttled''))"
  by (simp add: ValidateAccountTags_def tagged_org_def TagAccount_def)

section \<open>Traces of the federated account access reconciler\<close>

lemma appends_refl: "appends P tr tr"
  by (simp add: appends_def)

lemma appends_trans: "appends P tr tr1 \<Longrightarrow> appends P tr1 tr2 \<Longrightarrow> appends P tr tr2"
  by (auto simp: appends_def)

lemma appends_snoc: "P ev \<Longrightarrow> appends P tr (tr @ [ev])"
  by (simp add: appends_def)

lemma appends_mono: "appends P tr tr' \<Longrightarrow> (\<And>ev. P ev \<Longrightarrow> Q ev) \<Longrightarrow> appends Q tr tr'"
  by (auto simp: appends_def list_all_iff)

lemma checkAndDeletePolicy_events:
  assumes "checkAndDeletePolicy w uidLabel crPolicyName policyName policyArn tr = (r, tr')"
    and "listed_as w policyName policyArn"
  shows "appends (teardown_event w (getPolicyNameWithUID '''' crPolicyName uidLabel)) tr tr'"
  using assms
  by (auto simp: checkAndDeletePolicy_def callDeletePolicy_def Let_def appends_refl appends_snoc
      split: if_splits)

lemma checkPolicies_events:
  assumes "checkPolicies w uidLabel crPolicyName policies tr = (r, tr')"
    and "\<forall>p \<in> set policies. listed_as w (PolicyName p) (Arn p)"
  shows "appends (teardown_event w (getPolicyNameWithUID '''' crPolicyName uidLabel)) tr tr'"
  using assms
proof (induction policies arbitrary: tr)
  case Nil
  then show ?case by (simp add: appends_refl)
next
  case (Cons policy policies)
  obtain r1 tr1 where c: "checkAndDeletePolicy w uidLabel crPolicyName (PolicyName policy) (Arn policy) tr = (r1, tr1)"
    by (cases "checkAndDeletePolicy w uidLabel crPolicyName (PolicyName policy) (Arn policy) tr")
  from Cons.prems(2) have l: "listed_as w (PolicyName policy) (Arn policy)" by simp
  note a1 = checkAndDeletePolicy_events [OF c l]
  show ?case
  proof (cases r1)
    case None
    with c Cons.prems(1) have "checkPolicies w uidLabel crPolicyName policies tr1 = (r, tr')"
      by simp
    with Cons.IH Cons.prems(2) have "appends (teardown_event w (getPolicyNameWithUID '''' crPolicyName uidLabel)) tr1 tr'"
      by simp
    with a1 show ?thesis by (rule appends_trans)
  next
    case (Some err)
    with c Cons.prems(1) have "tr' = tr1" by simp
    with a1 show ?thesis by simp
  qed
qed

lemma ListPolicies_listed:
  "ListPolicies (aws w) n scope marker = Inr out \<Longrightarrow>
   \<forall>p \<in> set (Policies out). listed_as w (PolicyName p) (Arn p)"
  unfolding listed_as_def by blast

lemma ListAttachedRolePolicies_listed:
  "ListAttachedRolePolicies (aws w) n roleName marker = Inr out \<Longrightarrow>
   \<forall>p \<in> set (AttachedPolicies out). listed_as w (apPolicyName p) (apPolicyArn p)"
  unfolding listed_as_def by blast

lemma listPoliciesLoop_events:
  assumes "listPoliciesLoop fuel w uidLabel crPolicyName marker tr = (r, tr')"
  shows "appends (teardown_event w (getPolicyNameWithUID '''' crPolicyName uidLabel)) tr tr'"
  using assms
proof (induction fuel arbitrary: marker tr)
  case 0
  then show ?case by (simp add: appends_refl)
next
  case (Suc n)
  let ?P = "teardown_event w (getPolicyNameWithUID '''' crPolicyName uidLabel)"
  let ?tr1 = "tr @ [EvListPolicies (Some ''Local'') marker]"
  have a1: "appends ?P tr ?tr1" by (simp add: appends_snoc)
  show ?case
  proof (cases "ListPolicies (aws w) (length tr) (Some ''Local'') marker")
    case (Inl err)
    with Suc.prems have "tr' = ?tr1" by (simp add: callListPolicies_def)
    with a1 show ?thesis by simp
  next
    case (Inr out)
    obtain r2 tr2 where c: "checkPolicies w uidLabel crPolicyName (Policies out) ?tr1 = (r2, tr2)"
      by (cases "checkPolicies w uidLabel crPolicyName (Policies out) ?tr1")
    from checkPolicies_events [OF c ListPolicies_listed [OF Inr]] have a2: "appends ?P ?tr1 tr2" .
    show ?thesis
    proof (cases "r2 = None \<and> lpIsTruncated out")
      case True
      with Inr c Suc.prems
      have "listPoliciesLoop n w uidLabel crPolicyName (lpMarker out) tr2 = (r, tr')"
        by (simp add: callListPolicies_def)
      from Suc.IH [OF this] have "appends ?P tr2 tr'" .
      with a1 a2 show ?thesis by (blast intro: appends_trans)
    next
      case False
      with Inr c Suc.prems have "tr' = tr2"
        by (cases r2) (auto simp: callListPolicies_def split: if_splits)
      with a1 a2 show ?thesis by (blast intro: appends_trans)
    qed
  qed
qed

lemma deleteNonAttachedCustomPolicy_events:
  assumes "deleteNonAttachedCustomPolicy fuel w currentFAA federatedRoleCR tr = (r, tr')"
    and "faaLabels currentFAA (UIDLabel w) = Some uidLabel"
  shows "appends (teardown_event w
           (getPolicyNameWithUID '''' (customPolicyName (afrAWSCustomPolicy federatedRoleCR)) uidLabel))
           tr tr'"
  using assms
  by (auto simp: deleteNonAttachedCustomPolicy_def dest: listPoliciesLoop_events)


lemma detachPolicies_events:
  assumes "detachPolicies w roleName uidLabel crPolicyName attached tr = (r, tr')"
    and "\<forall>p \<in> set attached. listed_as w (apPolicyName p) (apPolicyArn p)"
  shows "appends (teardown_event w (getPolicyNameWithUID '''' crPolicyName uidLabel)) tr tr'"
  using assms
proof (induction attached arbitrary: tr)
  case Nil
  then show ?case by (simp add: appends_refl)
next
  case (Cons attachedPolicy rest)
  let ?P = "teardown_event w (getPolicyNameWithUID '''' crPolicyName uidLabel)"
  let ?tr1 = "tr @ [EvDetachRolePolicy roleName (apPolicyArn attachedPolicy)]"
  have a1: "appends ?P tr ?tr1" by (simp add: appends_snoc)
  show ?case
  proof (cases "DetachRolePolicy (aws w) (length tr) roleName (apPolicyArn attachedPolicy)")
    case (Some err)
    with Cons.prems(1) have "tr' = ?tr1" by (simp add: callDetachRolePolicy_def)
    with a1 show ?thesis by simp
  next
    case None
    obtain r2 tr2 where c: "checkAndDeletePolicy w uidLabel crPolicyName
        (apPolicyName attachedPolicy) (apPolicyArn attachedPolicy) ?tr1 = (r2, tr2)"
      by (cases "checkAndDeletePolicy w uidLabel crPolicyName
        (apPolicyName attachedPolicy) (apPolicyArn attachedPolicy) ?tr1")
    from Cons.prems(2) have "listed_as w (apPolicyName attachedPolicy) (apPolicyArn attachedPolicy)"
      by simp
    from checkAndDeletePolicy_events [OF c this] have a2: "appends ?P ?tr1 tr2" .
    show ?thesis
    proof (cases r2)
      case no_err: None
      with None c Cons.prems(1)
      have "detachPolicies w roleName uidLabel crPolicyName rest tr2 = (r, tr')"
        by (simp add: callDetachRolePolicy_def)
      with Cons.IH Cons.prems(2) have "appends ?P tr2 tr'" by simp
      with a1 a2 show ?thesis by (blast intro: appends_trans)
    next
      case (Some err)
      with None c Cons.prems(1) have "tr' = tr2" by (simp add: callDetachRolePolicy_def)
      with a1 a2 show ?thesis by (blast intro: appends_trans)
    qed
  qed
qed

lemma detachLoop_events:
  assumes "detachLoop fuel w currentFAA federatedRoleCR roleName uidLabel marker tr = (r, tr')"
    and "faaLabels currentFAA (UIDLabel w) = Some uidLabel"
  shows "appends (teardown_event w
           (getPolicyNameWithUID '''' (customPolicyName (afrAWSCustomPolicy federatedRoleCR)) uidLabel))
           tr tr'"
  using assms(1)
proof (induction fuel arbitrary: marker tr)
  case 0
  then show ?case by (simp add: appends_refl)
next
  case (Suc n)
  let ?P = "teardown_event w
           (getPolicyNameWithUID '''' (customPolicyName (afrAWSCustomPolicy federatedRoleCR)) uidLabel)"
  let ?tr1 = "tr @ [EvListAttachedRolePolicies roleName marker]"
  have a1: "appends ?P tr ?tr1" by (simp add: appends_snoc)
  show ?case
  proof (cases "ListAttachedRolePolicies (aws w) (length tr) roleName marker")
    case (Inl err)
    show ?thesis
    proof (cases "\<exists>message. err = AwsErr ''NoSuchEntity'' message")
      case True
      then obtain message where e: "err = AwsErr ''NoSuchEntity'' message" by blast
      obtain r2 tr2 where d: "deleteNonAttachedCustomPolicy (Suc n) w currentFAA federatedRoleCR ?tr1 = (r2, tr2)"
        by (cases "deleteNonAttachedCustomPolicy (Suc n) w currentFAA federatedRoleCR ?tr1")
      from deleteNonAttachedCustomPolicy_events [OF d assms(2)] have a2: "appends ?P ?tr1 tr2" .
      from Inl e d Suc.prems have "tr' = tr2"
        by (cases r2) (simp_all add: callListAttachedRolePolicies_def)
      with a1 a2 show ?thesis by (blast intro: appends_trans)
    next
      case False
      with Inl Suc.prems have "tr' = ?tr1"
        by (cases err) (auto simp: callListAttachedRolePolicies_def split: if_splits)
      with a1 show ?thesis by simp
    qed
  next
    case (Inr out)
    obtain r2 tr2 where c: "detachPolicies w roleName uidLabel
        (customPolicyName (afrAWSCustomPolicy federatedRoleCR)) (AttachedPolicies out) ?tr1 = (r2, tr2)"
      by (cases "detachPolicies w roleName uidLabel
        (customPolicyName (afrAWSCustomPolicy federatedRoleCR)) (AttachedPolicies out) ?tr1")
    from detachPolicies_events [OF c ListAttachedRolePolicies_listed [OF Inr]]
    have a2: "appends ?P ?tr1 tr2" .
    show ?thesis
    proof (cases "r2 = None \<and> apIsTruncated out")
      case True
      with Inr c Suc.prems
      have "detachLoop n w currentFAA federatedRoleCR roleName uidLabel (apMarker out) tr2 = (r, tr')"
        by (simp add: callListAttachedRolePolicies_def)
      from Suc.IH [OF this] have "appends ?P tr2 tr'" .
      with a1 a2 show ?thesis by (blast intro: appends_trans)
    next
      case False
      with Inr c Suc.prems have "tr' = tr2"
        by (cases r2) (auto simp: callListAttachedRolePolicies_def split: if_splits)
      with a1 a2 show ?thesis by (blast intro: appends_trans)
    qed
  qed
qed

lemma callAssumeRole_events:
  "callAssumeRole w roleArn sessionName tr = (r, tr') \<Longrightarrow> appends (teardown_event w x) tr tr'"
  by (auto simp: callAssumeRole_def appends_snoc)

lemma callGetClient_events:
  "callGetClient w input tr = (r, tr') \<Longrightarrow> appends (teardown_event w x) tr tr'"
  by (auto simp: callGetClient_def appends_snoc)

lemma callDeleteRole_events:
  "callDeleteRole w roleName tr = (r, tr') \<Longrightarrow> appends (teardown_event w x) tr tr'"
  by (auto simp: callDeleteRole_def appends_snoc)


lemma assumeRole_fallback_events:
  assumes "(case callAssumeRole w arn1 session tr of
              (Inl err, tr2) \<Rightarrow> callAssumeRole w arn2 session tr2
            | (Inr out, tr2) \<Rightarrow> (Inr out, tr2)) = (r, tr')"
  shows "appends (teardown_event w x) tr tr'"
  using assms
  by (auto simp: callAssumeRole_def appends_def split: sum.splits)

lemma cleanFederatedRoles_labelled_events:
  assumes run: "cleanFederatedRoles fuel w currentFAA federatedRoleCR tr = (r, tr')"
    and uid: "faaLabels currentFAA (UIDLabel w) = Some uidLabel"
  shows "appends (teardown_event w
           (getPolicyNameWithUID '''' (customPolicyName (afrAWSCustomPolicy federatedRoleCR))
              uidLabel)) tr tr'"
proof (cases "faaLabels currentFAA (AccountIDLabel w)")
  case None
  with uid run show ?thesis
    by (auto simp: cleanFederatedRoles_def appends_refl split: if_splits)
next
  case acc: (Some accountIDLabel)
  let ?P = "teardown_event w
     (getPolicyNameWithUID '''' (customPolicyName (afrAWSCustomPolicy federatedRoleCR)) uidLabel)"
  let ?region = "GetDefaultRegion (isFedramp w)"
  let ?roleName = "faaRoleName currentFAA @ ''-'' @ uidLabel"
  obtain r1 tr1 where g1:
    "callGetClient w (FromSecret (AwsSecretName w) (AccountCrNamespace w) ?region) tr = (r1, tr1)"
    by (cases "callGetClient w (FromSecret (AwsSecretName w) (AccountCrNamespace w) ?region) tr")
  from callGetClient_events [OF g1] have a1: "appends ?P tr tr1" .
  show ?thesis
  proof (cases r1)
    case (Some err)
    with run uid acc g1 have "tr' = tr1" by (simp add: cleanFederatedRoles_def Let_def)
    with a1 show ?thesis by simp
  next
    case None
    obtain r3 tr3 where g3:
      "(case callAssumeRole w
               (''arn:aws:iam::'' @ accountIDLabel @ '':role/OrganizationAccountAccessRole'')
               ''FederatedRoleCleanup'' tr1 of
          (Inl err, tr2) \<Rightarrow>
            callAssumeRole w
              (''arn:aws:iam::'' @ accountIDLabel @ '':role/BYOCAdminAccess-'' @ uidLabel)
              ''FederatedRoleCleanup'' tr2
        | (Inr out, tr2) \<Rightarrow> (Inr out, tr2)) = (r3, tr3)"
      by (cases "(case callAssumeRole w
               (''arn:aws:iam::'' @ accountIDLabel @ '':role/OrganizationAccountAccessRole'')
               ''FederatedRoleCleanup'' tr1 of
          (Inl err, tr2) \<Rightarrow>
            callAssumeRole w
              (''arn:aws:iam::'' @ accountIDLabel @ '':role/BYOCAdminAccess-'' @ uidLabel)
              ''FederatedRoleCleanup'' tr2
        | (Inr out, tr2) \<Rightarrow> (Inr out, tr2))")
    from assumeRole_fallback_events [OF g3] have a3: "appends ?P tr1 tr3" .
    show ?thesis
    proof (cases r3)
      case (Inl err)
      with run uid acc g1 None g3 have "tr' = tr3" by (simp add: cleanFederatedRoles_def Let_def)
      with a1 a3 show ?thesis by (blast intro: appends_trans)
    next
      case (Inr assumeRoleOutput)
      obtain r4 tr4 where g4:
        "callGetClient w
           (FromCredentials (AccessKeyId assumeRoleOutput) (SecretAccessKey assumeRoleOutput)
              (SessionToken assumeRoleOutput) ?region) tr3 = (r4, tr4)"
        by (cases "callGetClient w
           (FromCredentials (AccessKeyId assumeRoleOutput) (SecretAccessKey assumeRoleOutput)
              (SessionToken assumeRoleOutput) ?region) tr3")
      from callGetClient_events [OF g4] have a4: "appends ?P tr3 tr4" .
      show ?thesis
      proof (cases r4)
        case (Some err)
        with run uid acc g1 None g3 Inr g4 have "tr' = tr4"
          by (simp add: cleanFederatedRoles_def Let_def)
        with a1 a3 a4 show ?thesis by (blast intro: appends_trans)
      next
        case no_err: None
        obtain r5 tr5 where g5:
          "detachLoop fuel w currentFAA federatedRoleCR ?roleName uidLabel None tr4 = (r5, tr5)"
          by (cases "detachLoop fuel w currentFAA federatedRoleCR ?roleName uidLabel None tr4")
        from detachLoop_events [OF g5 uid] have a5: "appends ?P tr4 tr5" .
        have a6: "appends ?P tr5 (tr5 @ [EvDeleteRole ?roleName])" by (simp add: appends_snoc)
        from run uid acc g1 None g3 Inr g4 no_err g5
        have "tr' = tr5 \<or> tr' = tr5 @ [EvDeleteRole ?roleName]"
          by (cases r5) (auto simp: cleanFederatedRoles_def Let_def callDeleteRole_def)
        with a1 a3 a4 a5 a6 show ?thesis by (blast intro: appends_trans)
      qed
    qed
  qed
qed

lemma cleanFederatedRoles_unlabelled:
  "faaLabels currentFAA (UIDLabel w) = None \<Longrightarrow>
   snd (cleanFederatedRoles fuel w currentFAA federatedRoleCR tr) = tr"
  by (simp add: cleanFederatedRoles_def)



lemma createIAMPolicy_extends:
  "createIAMPolicy w afr afaa tr = (r, tr') \<Longrightarrow> appends any_event tr tr'"
  by (auto simp: createIAMPolicy_def callCreatePolicy_def appends_def Let_def split: option.splits)

lemma createIAMRole_extends:
  "createIAMRole w afr afaa tr = (r, tr') \<Longrightarrow> appends any_event tr tr'"
  by (auto simp: createIAMRole_def callCreateRole_def appends_def Let_def split: option.splits)

lemma createOrUpdateIAMPolicy_extends:
  "createOrUpdateIAMPolicy w afr afaa tr = (r, tr') \<Longrightarrow> appends any_event tr tr'"
  by (auto simp: createOrUpdateIAMPolicy_def createIAMPolicy_def callCreatePolicy_def
        callGetCallerIdentity_def callDeletePolicy_def appends_def Let_def
      split: option.splits sum.splits go_error.splits if_splits)

lemma createOrUpdateIAMRole_extends:
  "createOrUpdateIAMRole w afr afaa tr = (r, tr') \<Longrightarrow> appends any_event tr tr'"
  by (auto simp: createOrUpdateIAMRole_def createIAMRole_def callCreateRole_def
        callDeleteRole_def appends_def Let_def
      split: option.splits sum.splits go_error.splits if_splits)

lemma attachIAMPolices_extends:
  "attachIAMPolices w roleName policyArns tr = (r, tr') \<Longrightarrow> appends any_event tr tr'"
proof (induction policyArns arbitrary: tr)
  case Nil
  then show ?case by (simp add: appends_refl)
next
  case (Cons pol policyArns)
  have a1: "appends any_event tr (tr @ [EvAttachRolePolicy pol roleName])"
    by (simp add: appends_snoc)
  show ?case
  proof (cases "AttachRolePolicy (aws w) (length tr) pol roleName")
    case (Some err)
    with Cons.prems have "tr' = tr @ [EvAttachRolePolicy pol roleName]"
      by (simp add: callAttachRolePolicy_def)
    with a1 show ?thesis by simp
  next
    case None
    with Cons.prems
    have "attachIAMPolices w roleName policyArns (tr @ [EvAttachRolePolicy pol roleName]) = (r, tr')"
      by (simp add: callAttachRolePolicy_def)
    from Cons.IH [OF this] a1 show ?thesis by (blast intro: appends_trans)
  qed
qed

lemma failStatus_extends:
  "failStatus w obj message tr = (r, obj', tr') \<Longrightarrow> appends any_event tr tr'"
  by (auto simp: failStatus_def callStatusUpdate_def appends_def Let_def split: option.splits)

lemma faaReconcile_attach_extends:
  assumes "faaReconcile_attach w requestedRole currentFAA uidLabel accountID tr = (r, obj, tr')"
  shows "appends any_event tr tr'"
proof -
  obtain r1 tr1 where s1: "createOrUpdateIAMPolicy w requestedRole currentFAA tr = (r1, tr1)"
    by (cases "createOrUpdateIAMPolicy w requestedRole currentFAA tr")
  note a1 = createOrUpdateIAMPolicy_extends [OF s1]
  show ?thesis
  proof (cases r1)
    case (Some err)
    with assms s1 have "failStatus w currentFAA ''Failed to create custom policy'' tr1 = (r, obj, tr')"
      by (simp add: faaReconcile_attach_def)
    from failStatus_extends [OF this] a1 show ?thesis by (blast intro: appends_trans)
  next
    case None
    obtain r2 tr2 where s2: "createOrUpdateIAMRole w requestedRole currentFAA tr1 = (r2, tr2)"
      by (cases "createOrUpdateIAMRole w requestedRole currentFAA tr1")
    note a2 = createOrUpdateIAMRole_extends [OF s2]
    show ?thesis
    proof (cases r2)
      case (Inl err)
      with assms s1 None s2 have "failStatus w currentFAA ''Failed to create role'' tr2 = (r, obj, tr')"
        by (simp add: faaReconcile_attach_def)
      from failStatus_extends [OF this] a1 a2 show ?thesis by (blast intro: appends_trans)
    next
      case (Inr roleName)
      let ?faa1 = "currentFAA
                   \<lparr>ConsoleURL := ''https://signin.aws.amazon.com/switchrole?account='' @ accountID
                                   @ ''&roleName='' @ roleName\<rparr>"
      let ?arns = "createPolicyArns accountID (AWSManagedPolicies requestedRole) True
                   @ [hd (createPolicyArns accountID
                        [customPolicyName (afrAWSCustomPolicy requestedRole) @ ''-'' @ uidLabel] False)]"
      obtain r3 tr3 where s3:
        "attachIAMPolices w (faaRoleName ?faa1 @ ''-'' @ uidLabel) ?arns tr2 = (r3, tr3)"
        by (cases "attachIAMPolices w (faaRoleName ?faa1 @ ''-'' @ uidLabel) ?arns tr2")
      note a3 = attachIAMPolices_extends [OF s3]
      show ?thesis
      proof (cases r3)
        case (Some err)
        with assms s1 None s2 Inr s3
        have "failStatus w ?faa1 ''Failed to attach policies to role'' tr3 = (r, obj, tr')"
          by (simp add: faaReconcile_attach_def Let_def)
        from failStatus_extends [OF this] a1 a2 a3 show ?thesis by (blast intro: appends_trans)
      next
        case no_err: None
        with assms s1 None s2 Inr s3
        have "\<exists>ev. tr' = tr3 @ [ev]"
          by (auto simp: faaReconcile_attach_def Let_def callStatusUpdate_def)
        then have "appends any_event tr3 tr'" by (auto simp: appends_def)
        with a1 a2 a3 show ?thesis by (blast intro: appends_trans)
      qed
    qed
  qed
qed

lemma appends_any_iff: "appends any_event tr tr' \<longleftrightarrow> (\<exists>new. tr' = tr @ new)"
  by (simp add: appends_def list_all_iff)

lemma faaReconcile_provision_extends:
  assumes "faaReconcile_provision w requestedRole currentFAA tr = (r, obj, tr')"
  shows "appends any_event tr tr'"
  using assms
  unfolding faaReconcile_provision_def Let_def
  by (auto simp: callUpdate_def callGetClient_def callGetCallerIdentity_def appends_any_iff
      split: if_splits option.splits sum.splits prod.splits
      dest!: failStatus_extends faaReconcile_attach_extends)

section \<open>Teardown and the finalizer\<close>

lemma cleanFederatedRoles_no_labels:
  assumes "faaLabels currentFAA (UIDLabel w) = None \<or> faaLabels currentFAA (AccountIDLabel w) = None"
    and "faaState currentFAA \<noteq> AWSFederatedAccountStateReady"
  shows "cleanFederatedRoles fuel w currentFAA requestedRole tr = (Done None, tr)"
  using assms by (auto simp: cleanFederatedRoles_def split: option.splits)

text \<open>
  Claim C8. In a teardown where the uid label or the aws-account-id label is absent and
  the request's state is not \<open>Ready\<close>, \<open>cleanFederatedRoles\<close> returns success and
  issues no call at all, whatever the bound on its loops; and when that teardown runs in
  a pass of \<open>Reconcile\<close> (deletion marker set, finalizer present), the first event of the
  pass is the write that removes the finalizer: nothing is asked of the provider before
  it, so no delete is attempted. (The pass does not return after that write; what it
  does next is outside the claim.)
\<close>

theorem teardown_without_labels:
  assumes "faaLabels currentFAA (UIDLabel w) = None \<or> faaLabels currentFAA (AccountIDLabel w) = None"
    and "faaState currentFAA \<noteq> AWSFederatedAccountStateReady"
  shows "cleanFederatedRoles fuel w currentFAA requestedRole tr = (Done None, tr)
     \<and> (GetFAA (kube w) = Inr currentFAA \<and> GetRequestedRole (kube w) = Inr requestedRole
        \<and> faaDeletionTimestamp currentFAA \<noteq> None
        \<and> Contains (faaFinalizers currentFAA) (Finalizer w) \<longrightarrow>
         (\<exists>res obj rest. faaReconcile fuel w =
            (res, obj,
             EvUpdate (currentFAA\<lparr>faaFinalizers := Remove (faaFinalizers currentFAA) (Finalizer w)\<rparr>)
               # rest)))"
proof (intro conjI impI)
  show c: "cleanFederatedRoles fuel w currentFAA requestedRole tr = (Done None, tr)"
    using assms by (rule cleanFederatedRoles_no_labels)
next
  let ?obj = "currentFAA\<lparr>faaFinalizers := Remove (faaFinalizers currentFAA) (Finalizer w)\<rparr>"
  assume h: "GetFAA (kube w) = Inr currentFAA \<and> GetRequestedRole (kube w) = Inr requestedRole
        \<and> faaDeletionTimestamp currentFAA \<noteq> None
        \<and> Contains (faaFinalizers currentFAA) (Finalizer w)"
  have c: "cleanFederatedRoles fuel w currentFAA requestedRole [] = (Done None, [])"
    using assms by (rule cleanFederatedRoles_no_labels)
  show "\<exists>res obj rest. faaReconcile fuel w = (res, obj, EvUpdate ?obj # rest)"
  proof (cases "Update (kube w) 0 ?obj")
    case (Some err)
    with h c have "faaReconcile fuel w = (Done (Some err), Some ?obj, EvUpdate ?obj # [])"
      by (auto simp: faaReconcile_def faaReconcile_deletion_def removeFinalizer_def callUpdate_def
            Let_def)
    then show ?thesis by blast
  next
    case None
    with h c have r: "faaReconcile fuel w = faaReconcile_provision w requestedRole ?obj [EvUpdate ?obj]"
      by (auto simp: faaReconcile_def faaReconcile_deletion_def removeFinalizer_def callUpdate_def
            Let_def)
    obtain res obj tr' where p: "faaReconcile_provision w requestedRole ?obj [EvUpdate ?obj] = (res, obj, tr')"
      by (cases "faaReconcile_provision w requestedRole ?obj [EvUpdate ?obj]")
    from faaReconcile_provision_extends [OF p] obtain rest where "tr' = EvUpdate ?obj # rest"
      by (auto simp: appends_any_iff)
    with r p show ?thesis by simp
  qed
qed

text \<open>
  Claim C9, as amended. The finalizer protocol holds for every pass that finds the
  request and the template it names (the template is looked up before the finalizer is
  looked at, and a pass that does not find it ends there). For such a pass:
  \<^item> when the request lacks the finalizer, the pass writes the request with the finalizer
    appended and returns the result of that write; this write is the only event of the
    pass, so no provisioning step is performed;
  \<^item> when the deletion marker is set and the finalizer is present, and the teardown does
    not return success (it returns an error, or has not ended), the pass ends with the
    teardown's outcome, holds the request unchanged with its finalizer in place, and has
    written nothing to the store;
  \<^item> when the teardown returns success, the event after the teardown's events is the
    write that removes the finalizer.
  So the finalizer is removed only if the teardown returned success.
\<close>

theorem finalizer_protocol:
  assumes "GetFAA (kube w) = Inr currentFAA"
    and "GetRequestedRole (kube w) = Inr requestedRole"
  shows
   "(\<not> Contains (faaFinalizers currentFAA) (Finalizer w) \<longrightarrow>
       faaReconcile fuel w =
         (Done (Update (kube w) 0
                  (currentFAA\<lparr>faaFinalizers := faaFinalizers currentFAA @ [Finalizer w]\<rparr>)),
          Some (currentFAA\<lparr>faaFinalizers := faaFinalizers currentFAA @ [Finalizer w]\<rparr>),
          [EvUpdate (currentFAA\<lparr>faaFinalizers := faaFinalizers currentFAA @ [Finalizer w]\<rparr>)]))
    \<and> (Contains (faaFinalizers currentFAA) (Finalizer w)
        \<and> faaDeletionTimestamp currentFAA \<noteq> None
        \<and> fst (cleanFederatedRoles fuel w currentFAA requestedRole []) \<noteq> Done None \<longrightarrow>
       faaReconcile fuel w =
         (fst (cleanFederatedRoles fuel w currentFAA requestedRole []), Some currentFAA,
          snd (cleanFederatedRoles fuel w currentFAA requestedRole []))
       \<and> \<not> list_ex store_write (snd (cleanFederatedRoles fuel w currentFAA requestedRole [])))
    \<and> (Contains (faaFinalizers currentFAA) (Finalizer w)
        \<and> faaDeletionTimestamp currentFAA \<noteq> None
        \<and> fst (cleanFederatedRoles fuel w currentFAA requestedRole []) = Done None \<longrightarrow>
       (\<exists>res obj rest. faaReconcile fuel w =
          (res, obj,
           snd (cleanFederatedRoles fuel w currentFAA requestedRole [])
           @ EvUpdate (currentFAA\<lparr>faaFinalizers := Remove (faaFinalizers currentFAA) (Finalizer w)\<rparr>)
           # rest)))"
proof (intro conjI impI)
  assume "\<not> Contains (faaFinalizers currentFAA) (Finalizer w)"
  with assms show "faaReconcile fuel w =
         (Done (Update (kube w) 0
                  (currentFAA\<lparr>faaFinalizers := faaFinalizers currentFAA @ [Finalizer w]\<rparr>)),
          Some (currentFAA\<lparr>faaFinalizers := faaFinalizers currentFAA @ [Finalizer w]\<rparr>),
          [EvUpdate (currentFAA\<lparr>faaFinalizers := faaFinalizers currentFAA @ [Finalizer w]\<rparr>)])"
    by (simp add: faaReconcile_def addFinalizer_def callUpdate_def Let_def)
next
  assume h: "Contains (faaFinalizers currentFAA) (Finalizer w)
        \<and> faaDeletionTimestamp currentFAA \<noteq> None
        \<and> fst (cleanFederatedRoles fuel w currentFAA requestedRole []) \<noteq> Done None"
  obtain r tr where c: "cleanFederatedRoles fuel w currentFAA requestedRole [] = (r, tr)"
    by (cases "cleanFederatedRoles fuel w currentFAA requestedRole []")
  with h have nr: "r \<noteq> Done None" by simp
  with assms h c
  show "faaReconcile fuel w =
         (fst (cleanFederatedRoles fuel w currentFAA requestedRole []), Some currentFAA,
          snd (cleanFederatedRoles fuel w currentFAA requestedRole []))"
    by (cases r) (auto simp: faaReconcile_def faaReconcile_deletion_def split: option.splits)
next
  assume h: "Contains (faaFinalizers currentFAA) (Finalizer w)
        \<and> faaDeletionTimestamp currentFAA \<noteq> None
        \<and> fst (cleanFederatedRoles fuel w currentFAA requestedRole []) \<noteq> Done None"
  obtain r tr where c: "cleanFederatedRoles fuel w currentFAA requestedRole [] = (r, tr)"
    by (cases "cleanFederatedRoles fuel w currentFAA requestedRole []")
  have "\<not> list_ex store_write tr"
  proof (cases "faaLabels currentFAA (UIDLabel w)")
    case None
    with cleanFederatedRoles_unlabelled [of currentFAA w fuel requestedRole "[]"] c
    show ?thesis by simp
  next
    case (Some uidLabel)
    from cleanFederatedRoles_labelled_events [OF c Some]
    have "list_all (teardown_event w
           (getPolicyNameWithUID '''' (customPolicyName (afrAWSCustomPolicy requestedRole)) uidLabel)) tr"
      by (simp add: appends_def)
    moreover have "\<And>x ev. teardown_event w x ev \<Longrightarrow> \<not> store_write ev"
      by (case_tac ev) simp_all
    ultimately show ?thesis by (auto simp: list_all_iff list_ex_iff)
  qed
  with c show "\<not> list_ex store_write (snd (cleanFederatedRoles fuel w currentFAA requestedRole []))"
    by simp
next
  let ?obj = "currentFAA\<lparr>faaFinalizers := Remove (faaFinalizers currentFAA) (Finalizer w)\<rparr>"
  assume h: "Contains (faaFinalizers currentFAA) (Finalizer w)
        \<and> faaDeletionTimestamp currentFAA \<noteq> None
        \<and> fst (cleanFederatedRoles fuel w currentFAA requestedRole []) = Done None"
  obtain r tr where c: "cleanFederatedRoles fuel w currentFAA requestedRole [] = (r, tr)"
    by (cases "cleanFederatedRoles fuel w currentFAA requestedRole []")
  with h have r: "r = Done None" by simp
  have "\<exists>res obj rest. faaReconcile fuel w = (res, obj, tr @ EvUpdate ?obj # rest)"
  proof (cases "Update (kube w) (length tr) ?obj")
    case (Some err)
    with assms h c r have "faaReconcile fuel w = (Done (Some err), Some ?obj, tr @ EvUpdate ?obj # [])"
      by (auto simp: faaReconcile_def faaReconcile_deletion_def removeFinalizer_def callUpdate_def
            Let_def)
    then show ?thesis by blast
  next
    case None
    with assms h c r
    have e: "faaReconcile fuel w = faaReconcile_provision w requestedRole ?obj (tr @ [EvUpdate ?obj])"
      by (auto simp: faaReconcile_def faaReconcile_deletion_def removeFinalizer_def callUpdate_def
            Let_def)
    obtain res obj tr' where p:
      "faaReconcile_provision w requestedRole ?obj (tr @ [EvUpdate ?obj]) = (res, obj, tr')"
      by (cases "faaReconcile_provision w requestedRole ?obj (tr @ [EvUpdate ?obj])")
    from faaReconcile_provision_extends [OF p] obtain rest where "tr' = tr @ EvUpdate ?obj # rest"
      by (auto simp: appends_any_iff)
    with e p show ?thesis by simp
  qed
  with c show "\<exists>res obj rest. faaReconcile fuel w =
          (res, obj,
           snd (cleanFederatedRoles fuel w currentFAA requestedRole []) @ EvUpdate ?obj # rest)"
    by simp
qed

text \<open>
  Claim C10, as amended. Every policy delete call of a teardown, in the sweep of the
  attached policies and in the sweep of all local policies alike, is for a policy the
  provider listed under the name \<open>getPolicyNameWithUID\<close> computes from the template's
  custom policy name and the request's uid: that name suffixed with \<open>-uid\<close>, or that
  name itself when it already ends in \<open>-uid\<close>. A policy listed under any other name is
  never deleted.
\<close>

theorem teardown_deletes_only_expected_policy:
  assumes "cleanFederatedRoles fuel w currentFAA federatedRoleCR tr = (r, tr')"
  shows "\<exists>new. tr' = tr @ new
           \<and> (\<forall>arn. EvDeletePolicy arn \<in> set new \<longrightarrow>
                (\<exists>uidLabel. faaLabels currentFAA (UIDLabel w) = Some uidLabel
                   \<and> listed_as w
                        (getPolicyNameWithUID ''''
                           (customPolicyName (afrAWSCustomPolicy federatedRoleCR)) uidLabel) arn))"
proof (cases "faaLabels currentFAA (UIDLabel w)")
  case None
  with cleanFederatedRoles_unlabelled [of currentFAA w fuel federatedRoleCR tr] assms
  have "tr' = tr @ []" by simp
  then show ?thesis by (intro exI [of _ "[]"]) simp
next
  case (Some uidLabel)
  from cleanFederatedRoles_labelled_events [OF assms Some]
  obtain new where n: "tr' = tr @ new"
    and a: "list_all (teardown_event w
           (getPolicyNameWithUID '''' (customPolicyName (afrAWSCustomPolicy federatedRoleCR)) uidLabel)) new"
    by (auto simp: appends_def)
  from a have "\<forall>arn. EvDeletePolicy arn \<in> set new \<longrightarrow>
      listed_as w (getPolicyNameWithUID '''' (customPolicyName (afrAWSCustomPolicy federatedRoleCR)) uidLabel) arn"
    by (auto simp: list_all_iff)
  with n Some show ?thesis by blast
qed

section \<open>The reconcilers at concrete inputs\<close>

lemmas call_defs =
  callUpdate_def callStatusUpdate_def callGetClient_def callGetCallerIdentity_def
  callCreatePolicy_def callDeletePolicy_def callCreateRole_def callDeleteRole_def
  callAttachRolePolicy_def callDetachRolePolicy_def callAssumeRole_def
  callListAttachedRolePolicies_def callListPolicies_def callUpdateRole_def
  callStatusUpdateRole_def callFinalizeFederateRole_def

lemmas faa_defs =
  faaReconcile_def faaReconcile_deletion_def faaReconcile_provision_def faaReconcile_attach_def
  failStatus_def createOrUpdateIAMPolicy_def createIAMPolicy_def createOrUpdateIAMRole_def
  createIAMRole_def cleanFederatedRoles_def deleteNonAttachedCustomPolicy_def
  checkAndDeletePolicy_def getPolicyNameWithUID_def HasSuffix_def addFinalizer_def
  removeFinalizer_def SetStatuswithCondition_def SetCondition_def createPolicyArns_def
  hasLabel_def Contains_def Remove_def JoinLabelMaps_def GetDefaultRegion_def

lemmas afr_defs =
  afrReconcile_def afrReconcile_validate_def afr_updateStatus_def afr_addFinalizer_def
  afr_removeFinalizer_def getAllPolicies_def buildPolicyNameSlice_def firstMissingPolicy_def
  awsSecretName_def SetCondition_def Contains_def Remove_def GetDefaultRegion_def

lemmas example_defs =
  example_world_def ok_aws_def example_role_def example_faa_def malformed_policy_aws_def
  access_denied_aws_def attached_aws_def suffixed_role_def deleted_faa_def
  unlabelled_deleted_faa_def fresh_faa_def provisioned_faa_def empty_role_def noted_role_def

text \<open>
  Claim C3, at the input where the code departs from it. The provider refuses the custom
  policy with \<open>MalformedPolicyDocument\<close>, which is not an already-exists conflict.
  \<open>createOrUpdateIAMPolicy\<close> returns \<open>nil\<close> all the same, and the pass goes on: it
  creates the role, attaches the policies and sets the state \<open>Ready\<close>.
\<close>

theorem policy_creation_error_swallowed:
  "CreatePolicy (aws (example_world malformed_policy_aws example_faa example_role)) 3
       ''ReadOnly-abc123'' ''View the account''
       (PolicyDocument ''2012-10-17'' (Statements (afrAWSCustomPolicy example_role)))
     = Inl (AwsErr ''MalformedPolicyDocument'' ''Syntax errors in policy.'')
   \<and> faaReconcile 0 (example_world malformed_policy_aws example_faa example_role) =
       (Done None, Some provisioned_faa,
        [EvGetClient (FromSecret ''customer-credentials'' ''customer'' AwsUSEastOneRegion),
         EvGetCallerIdentity,
         EvGetCallerIdentity,
         EvCreatePolicy ''ReadOnly-abc123'' ''View the account''
           (PolicyDocument ''2012-10-17'' (Statements (afrAWSCustomPolicy example_role))),
         EvCreateRole ''read-only-abc123'' ''Read only access''
           (PolicyDocument ''2012-10-17''
              [\<lparr>Effect = ''Allow'', Action = [''sts:AssumeRole''], Resource = [],
                StatementCondition = None,
                Principal = Some [''arn:aws:iam::999999999999:user/alice'']\<rparr>]),
         EvAttachRolePolicy ''arn:aws:iam::aws:policy/AmazonS3ReadOnlyAccess'' ''read-only-abc123'',
         EvAttachRolePolicy ''arn:aws:iam::123456789012:policy/ReadOnly-abc123'' ''read-only-abc123'',
         EvStatusUpdate provisioned_faa])
   \<and> faaState provisioned_faa = AWSFederatedAccountStateReady"
  by (simp add: faa_defs call_defs example_defs Let_def)


text \<open>
  The same for every error of the first create call that is not an already-exists
  conflict: \<open>createOrUpdateIAMPolicy\<close> reports success.
\<close>

lemma createOrUpdateIAMPolicy_swallows:
  assumes "faaLabels afaa ''uid'' = Some uidLabel"
    and "GetCallerIdentity (aws w) (length tr) = Inr account"
    and "CreatePolicy (aws w) (Suc (length tr))
           (customPolicyName (afrAWSCustomPolicy afr) @ ''-'' @ uidLabel)
           (customPolicyDescription (afrAWSCustomPolicy afr))
           (PolicyDocument ''2012-10-17'' (Statements (afrAWSCustomPolicy afr))) = Inl err"
    and "\<forall>message. err \<noteq> AwsErr ''EntityAlreadyExists'' message"
  shows "fst (createOrUpdateIAMPolicy w afr afaa tr) = None"
  using assms
  by (cases err)
     (auto simp: createOrUpdateIAMPolicy_def createIAMPolicy_def callGetCallerIdentity_def
        callCreatePolicy_def Let_def)

theorem teardown_without_labels_witness:
  "faaLabels unlabelled_deleted_faa
       (UIDLabel (example_world ok_aws unlabelled_deleted_faa example_role)) = None
   \<and> faaState unlabelled_deleted_faa \<noteq> AWSFederatedAccountStateReady
   \<and> cleanFederatedRoles 5 (example_world ok_aws unlabelled_deleted_faa example_role)
        unlabelled_deleted_faa example_role [] = (Done None, [])
   \<and> (\<exists>res obj rest.
        faaReconcile 5 (example_world ok_aws unlabelled_deleted_faa example_role) =
          (res, obj, EvUpdate (unlabelled_deleted_faa\<lparr>faaFinalizers := []\<rparr>) # rest))
   \<and> faaLabels uid_only_deleted_faa
       (AccountIDLabel (example_world ok_aws uid_only_deleted_faa example_role)) = None
   \<and> faaState uid_only_deleted_faa \<noteq> AWSFederatedAccountStateReady
   \<and> cleanFederatedRoles 5 (example_world ok_aws uid_only_deleted_faa example_role)
        uid_only_deleted_faa example_role [] = (Done None, [])
   \<and> (\<exists>res obj rest.
        faaReconcile 5 (example_world ok_aws uid_only_deleted_faa example_role) =
          (res, obj, EvUpdate (uid_only_deleted_faa\<lparr>faaFinalizers := []\<rparr>) # rest))"
  using teardown_without_labels
          [of unlabelled_deleted_faa "example_world ok_aws unlabelled_deleted_faa example_role"
              5 example_role "[]"]
        teardown_without_labels
          [of uid_only_deleted_faa "example_world ok_aws uid_only_deleted_faa example_role"
              5 example_role "[]"]
  by (simp add: example_defs uid_only_deleted_faa_def Contains_def Remove_def)

theorem finalizer_protocol_witness:
  "faaReconcile 5 (example_world ok_aws fresh_faa example_role) =
     (Done None,
      Some (fresh_faa\<lparr>faaFinalizers := [''finalizer.aws.managed.openshift.io'']\<rparr>),
      [EvUpdate (fresh_faa\<lparr>faaFinalizers := [''finalizer.aws.managed.openshift.io'']\<rparr>)])
   \<and> faaReconcile 5 (example_world access_denied_aws deleted_faa example_role) =
     (Done (Some (AwsErr ''AccessDenied'' ''not authorized to perform sts:AssumeRole'')),
      Some deleted_faa,
      [EvGetClient (FromSecret ''aws-account-operator-credentials'' ''aws-account-operator''
                      AwsUSEastOneRegion),
       EvAssumeRole ''arn:aws:iam::123456789012:role/OrganizationAccountAccessRole''
         ''FederatedRoleCleanup'',
       EvAssumeRole ''arn:aws:iam::123456789012:role/BYOCAdminAccess-abc123''
         ''FederatedRoleCleanup''])
   \<and> Contains (faaFinalizers deleted_faa)
        (Finalizer (example_world access_denied_aws deleted_faa example_role))
   \<and> (\<exists>res obj rest.
        faaReconcile 5 (example_world ok_aws deleted_faa example_role) =
          (res, obj,
           [EvGetClient (FromSecret ''aws-account-operator-credentials'' ''aws-account-operator''
                           AwsUSEastOneRegion),
            EvAssumeRole ''arn:aws:iam::123456789012:role/OrganizationAccountAccessRole''
              ''FederatedRoleCleanup'',
            EvGetClient (FromCredentials ''AKIAEXAMPLE'' ''secret'' ''token'' AwsUSEastOneRegion),
            EvListAttachedRolePolicies ''read-only-abc123'' None,
            EvDeleteRole ''read-only-abc123'',
            EvUpdate (deleted_faa\<lparr>faaFinalizers := []\<rparr>)] @ rest))"
proof -
  have c1: "cleanFederatedRoles 5 (example_world access_denied_aws deleted_faa example_role)
              deleted_faa example_role [] =
            (Done (Some (AwsErr ''AccessDenied'' ''not authorized to perform sts:AssumeRole'')),
      [EvGetClient (FromSecret ''aws-account-operator-credentials'' ''aws-account-operator''
                      AwsUSEastOneRegion),
       EvAssumeRole ''arn:aws:iam::123456789012:role/OrganizationAccountAccessRole''
         ''FederatedRoleCleanup'',
       EvAssumeRole ''arn:aws:iam::123456789012:role/BYOCAdminAccess-abc123''
         ''FederatedRoleCleanup''])"
    by (simp add: cleanFederatedRoles_def call_defs example_defs GetDefaultRegion_def Let_def)
  have c2: "cleanFederatedRoles 5 (example_world ok_aws deleted_faa example_role)
              deleted_faa example_role [] =
            (Done None,
           [EvGetClient (FromSecret ''aws-account-operator-credentials'' ''aws-account-operator''
                           AwsUSEastOneRegion),
            EvAssumeRole ''arn:aws:iam::123456789012:role/OrganizationAccountAccessRole''
              ''FederatedRoleCleanup'',
            EvGetClient (FromCredentials ''AKIAEXAMPLE'' ''secret'' ''token'' AwsUSEastOneRegion),
            EvListAttachedRolePolicies ''read-only-abc123'' None,
            EvDeleteRole ''read-only-abc123''])"
    by (simp add: cleanFederatedRoles_def call_defs example_defs GetDefaultRegion_def Let_def
          eval_nat_numeral)
  show ?thesis
    using finalizer_protocol
            [of "example_world ok_aws fresh_faa example_role" fresh_faa example_role 5]
          finalizer_protocol
            [of "example_world access_denied_aws deleted_faa example_role" deleted_faa
                example_role 5]
          finalizer_protocol
            [of "example_world ok_aws deleted_faa example_role" deleted_faa example_role 5]
          c1 c2
    by (simp add: example_defs Contains_def Remove_def)
qed

text \<open>
  The claim as stated, for every pass, fails where the template the request names is not
  in the store: the request has no finalizer, and the pass sets its state to \<open>Failed\<close>,
  writes the status and returns. The finalizer is not added; the one event of the pass
  is the status write.
\<close>

theorem finalizer_not_added_without_template_counterexample:
  "GetFAA (kube missing_template_world) = Inr fresh_faa
   \<and> GetRequestedRole (kube missing_template_world) = Inl K8sNotFound
   \<and> \<not> Contains (faaFinalizers fresh_faa) (Finalizer missing_template_world)
   \<and> faaReconcile 5 missing_template_world
       = (Done None, Some orphaned_faa, [EvStatusUpdate orphaned_faa])
   \<and> faaFinalizers orphaned_faa = []
   \<and> faaState orphaned_faa = AWSFederatedAccountStateFailed"
  by (simp add: faaReconcile_def failStatus_def SetStatuswithCondition_def SetCondition_def
        callStatusUpdate_def Contains_def missing_template_world_def orphaned_faa_def
        example_defs Let_def)




theorem teardown_deletes_only_expected_policy_witness:
  "cleanFederatedRoles 5 (example_world attached_aws deleted_faa example_role)
     deleted_faa example_role [] =
     (Done None,
      [EvGetClient (FromSecret ''aws-account-operator-credentials'' ''aws-account-operator''
                      AwsUSEastOneRegion),
       EvAssumeRole ''arn:aws:iam::123456789012:role/OrganizationAccountAccessRole''
         ''FederatedRoleCleanup'',
       EvGetClient (FromCredentials ''AKIAEXAMPLE'' ''secret'' ''token'' AwsUSEastOneRegion),
       EvListAttachedRolePolicies ''read-only-abc123'' None,
       EvDetachRolePolicy ''read-only-abc123'' ''arn:aws:iam::123456789012:policy/ReadOnly-abc123'',
       EvDeletePolicy ''arn:aws:iam::123456789012:policy/ReadOnly-abc123'',
       EvDetachRolePolicy ''read-only-abc123'' ''arn:aws:iam::aws:policy/AmazonS3ReadOnlyAccess'',
       EvDeleteRole ''read-only-abc123''])
   \<and> listed_as (example_world attached_aws deleted_faa example_role)
         ''ReadOnly-abc123'' ''arn:aws:iam::123456789012:policy/ReadOnly-abc123''"
proof -
  let ?w = "example_world attached_aws deleted_faa example_role"
  let ?arn = "''arn:aws:iam::123456789012:policy/ReadOnly-abc123''"
  let ?tr = "[EvGetClient (FromSecret ''aws-account-operator-credentials'' ''aws-account-operator''
                      AwsUSEastOneRegion),
       EvAssumeRole ''arn:aws:iam::123456789012:role/OrganizationAccountAccessRole''
         ''FederatedRoleCleanup'',
       EvGetClient (FromCredentials ''AKIAEXAMPLE'' ''secret'' ''token'' AwsUSEastOneRegion),
       EvListAttachedRolePolicies ''read-only-abc123'' None,
       EvDetachRolePolicy ''read-only-abc123'' ?arn,
       EvDeletePolicy ?arn,
       EvDetachRolePolicy ''read-only-abc123'' ''arn:aws:iam::aws:policy/AmazonS3ReadOnlyAccess'',
       EvDeleteRole ''read-only-abc123'']"
  have run: "cleanFederatedRoles 5 ?w deleted_faa example_role [] = (Done None, ?tr)"
    by (simp add: cleanFederatedRoles_def checkAndDeletePolicy_def getPolicyNameWithUID_def
          HasSuffix_def call_defs example_defs GetDefaultRegion_def Let_def eval_nat_numeral)
  from teardown_deletes_only_expected_policy [OF run]
  obtain new where n: "?tr = [] @ new"
    and only: "\<forall>arn. EvDeletePolicy arn \<in> set new \<longrightarrow>
                (\<exists>uidLabel. faaLabels deleted_faa (UIDLabel ?w) = Some uidLabel
                   \<and> listed_as ?w
                        (getPolicyNameWithUID ''''
                           (customPolicyName (afrAWSCustomPolicy example_role)) uidLabel) arn)"
    by blast
  from n have "new = ?tr" by simp
  then have "EvDeletePolicy ?arn \<in> set new" by simp
  with only obtain uidLabel where u: "faaLabels deleted_faa (UIDLabel ?w) = Some uidLabel"
    and l: "listed_as ?w
              (getPolicyNameWithUID '''' (customPolicyName (afrAWSCustomPolicy example_role)) uidLabel)
              ?arn"
    by blast
  from u have "uidLabel = ''abc123''" by (simp add: example_defs)
  with l have "listed_as ?w ''ReadOnly-abc123'' ?arn"
    by (simp add: getPolicyNameWithUID_def HasSuffix_def example_role_def)
  with run show ?thesis by simp
qed

text \<open>
  The claim as stated fails for a template whose custom policy name already ends in the
  request's \<open>-uid\<close>: the teardown deletes the policy listed under the template's own
  name, which is not that name suffixed with \<open>-uid\<close>.
\<close>

theorem teardown_deletes_unsuffixed_name_counterexample:
  "faaLabels deleted_faa (UIDLabel (example_world attached_aws deleted_faa suffixed_role))
     = Some ''abc123''
   \<and> customPolicyName (afrAWSCustomPolicy suffixed_role) @ ''-'' @ ''abc123''
     = ''ReadOnly-abc123-abc123''
   \<and> \<not> listed_as (example_world attached_aws deleted_faa suffixed_role)
         ''ReadOnly-abc123-abc123'' ''arn:aws:iam::123456789012:policy/ReadOnly-abc123''
   \<and> cleanFederatedRoles 5 (example_world attached_aws deleted_faa suffixed_role)
        deleted_faa suffixed_role [] =
     (Done None,
      [EvGetClient (FromSecret ''aws-account-operator-credentials'' ''aws-account-operator''
                      AwsUSEastOneRegion),
       EvAssumeRole ''arn:aws:iam::123456789012:role/OrganizationAccountAccessRole''
         ''FederatedRoleCleanup'',
       EvGetClient (FromCredentials ''AKIAEXAMPLE'' ''secret'' ''token'' AwsUSEastOneRegion),
       EvListAttachedRolePolicies ''read-only-abc123'' None,
       EvDetachRolePolicy ''read-only-abc123'' ''arn:aws:iam::123456789012:policy/ReadOnly-abc123'',
       EvDeletePolicy ''arn:aws:iam::123456789012:policy/ReadOnly-abc123'',
       EvDetachRolePolicy ''read-only-abc123'' ''arn:aws:iam::aws:policy/AmazonS3ReadOnlyAccess'',
       EvDeleteRole ''read-only-abc123''])"
proof -
  have "\<not> listed_as (example_world attached_aws deleted_faa suffixed_role)
         ''ReadOnly-abc123-abc123'' ''arn:aws:iam::123456789012:policy/ReadOnly-abc123''"
    by (auto simp: listed_as_def example_defs)
  then show ?thesis
    by (simp add: cleanFederatedRoles_def checkAndDeletePolicy_def getPolicyNameWithUID_def
          HasSuffix_def call_defs example_defs GetDefaultRegion_def Let_def eval_nat_numeral)
qed

text \<open>
  Claim C4, at the input where the code departs from it. For a template with no managed
  policy and no custom policy name the pass records the \<open>Invalid\<close> condition and writes
  the status, but leaves the state as it was; the next pass for the template so written
  validates it again (it builds a client and writes the status once more).
\<close>

theorem empty_template_state_not_set:
  "length (AWSManagedPolicies empty_role) = 0
   \<and> customPolicyName (afrAWSCustomPolicy empty_role) = ''''
   \<and> afrReconcile 5 (example_world ok_aws example_faa empty_role) =
       (AfrReturn None, Some noted_role,
        [EvGetClient (FromSecret ''aws-account-operator-credentials'' ''aws-account-operator''
                        AwsUSEastOneRegion),
         EvStatusUpdateRole noted_role])
   \<and> afrState noted_role = AWSFederatedRoleStateNone
   \<and> map cType (afrConditions noted_role) = [AWSFederatedRoleInvalid]
   \<and> afrReconcile 5 (example_world ok_aws example_faa noted_role) =
       (AfrReturn None, Some noted_role,
        [EvGetClient (FromSecret ''aws-account-operator-credentials'' ''aws-account-operator''
                        AwsUSEastOneRegion),
         EvStatusUpdateRole noted_role])"
  by (simp add: afr_defs call_defs example_defs Let_def)

text \<open>
  The same for every template with no policies: whenever the pass reaches the emptiness
  check, it ends with the state still unset, after writing the status.
\<close>

lemma empty_template_keeps_state:
  assumes "\<not> isFedramp w"
    and "GetInstance (kube w) = Inr instance"
    and "Contains (afrFinalizers instance) (Finalizer w)"
    and "afrDeletionTimestamp instance = None"
    and "afrState instance = AWSFederatedRoleStateNone"
    and "AWSManagedPolicies instance = []"
    and "customPolicyName (afrAWSCustomPolicy instance) = ''''"
    and "GetClient w 0 (FromSecret awsSecretName (AccountCrNamespace w) AwsUSEastOneRegion) = None"
    and "MarshalIAMPolicy w instance = Inr jsonPolicy"
  shows "\<exists>err obj tr. afrReconcile fuel w = (AfrReturn err, Some obj, tr)
           \<and> afrState obj = AWSFederatedRoleStateNone
           \<and> last tr = EvStatusUpdateRole obj"
  using assms
  by (simp add: afrReconcile_def afrReconcile_validate_def afr_updateStatus_def
        callGetClient_def callStatusUpdateRole_def GetDefaultRegion_def)

text \<open>
  Claim C7. When the template the store returns is in state \<open>Valid\<close> or \<open>Invalid\<close>,
  the pass returns, and every event of the pass belongs to the finalizer and deletion
  handling: it builds no client, calls no provider entry point and writes no status.
\<close>

theorem terminal_template_not_validated:
  assumes "GetInstance (kube w) = Inr instance"
    and "afrState instance = AWSFederatedRoleStateValid
         \<or> afrState instance = AWSFederatedRoleStateInvalid"
  shows "list_all finalizer_handling (snd (snd (afrReconcile fuel w)))
         \<and> (\<exists>err. fst (afrReconcile fuel w) = AfrReturn err)"
  using assms
  by (auto simp: afrReconcile_def afrReconcile_validate_def afr_addFinalizer_def
        afr_removeFinalizer_def callUpdateRole_def callFinalizeFederateRole_def Let_def
      split: option.splits)

theorem terminal_template_not_validated_witness:
  "GetInstance (kube (example_world ok_aws example_faa example_role)) = Inr example_role
   \<and> afrState example_role = AWSFederatedRoleStateValid
   \<and> afrReconcile 5 (example_world ok_aws example_faa example_role)
       = (AfrReturn None, Some example_role, [])
   \<and> list_all finalizer_handling
        (snd (snd (afrReconcile 5 (example_world ok_aws example_faa example_role))))"
  using terminal_template_not_validated
          [of "example_world ok_aws example_faa example_role" example_role 5]
  by (simp add: afr_defs call_defs example_defs Let_def)




text \<open>
  Claim C5. \<open>CreateAccount\<close> classifies the outcomes: a create call that fails with
  the constraint-violation code gives the account-limit-exceeded error, with the service
  code the internal-failure error, with the too-many-requests code the
  too-many-requests error, with any other code the failed-create-account error; a status
  check that reports \<open>FAILED\<close> with reason \<open>ACCOUNT_LIMIT_EXCEEDED\<close> gives the
  account-limit-exceeded error; a status check that reports \<open>SUCCEEDED\<close> returns the
  describe-status output unchanged and no error. In the last two cases exactly one
  status check follows the create call.
\<close>

theorem CreateAccount_classification:
  "(CreateAccountCall client accountName accountEmail
       = Inl (AwsErr ErrCodeConstraintViolationException message) \<longrightarrow>
      fst (CreateAccount client accountName accountEmail)
        = Specified (emptyDescribeOutput, Some ErrAwsAccountLimitExceeded))
   \<and> (CreateAccountCall client accountName accountEmail
       = Inl (AwsErr ErrCodeServiceException message) \<longrightarrow>
      fst (CreateAccount client accountName accountEmail)
        = Specified (emptyDescribeOutput, Some ErrAwsInternalFailure))
   \<and> (CreateAccountCall client accountName accountEmail
       = Inl (AwsErr ErrCodeTooManyRequestsException message) \<longrightarrow>
      fst (CreateAccount client accountName accountEmail)
        = Specified (emptyDescribeOutput, Some ErrAwsTooManyRequests))
   \<and> (CreateAccountCall client accountName accountEmail = Inl (AwsErr code message)
      \<and> code \<noteq> ErrCodeConstraintViolationException \<and> code \<noteq> ErrCodeServiceException
      \<and> code \<noteq> ErrCodeTooManyRequestsException \<longrightarrow>
      fst (CreateAccount client accountName accountEmail)
        = Specified (emptyDescribeOutput, Some ErrAwsFailedCreateAccount))
   \<and> (CreateAccountCall client accountName accountEmail = Inr createStatus
      \<and> DescribeCreateAccountStatus client (casId createStatus) = Inr status
      \<and> casState status = Some ''FAILED''
      \<and> casFailureReason status = Some ''ACCOUNT_LIMIT_EXCEEDED'' \<longrightarrow>
      CreateAccount client accountName accountEmail
        = (Specified (emptyDescribeOutput, Some ErrAwsAccountLimitExceeded),
           [CallCreateAccount accountName accountEmail, CallDescribeStatus (casId createStatus)]))
   \<and> (CreateAccountCall client accountName accountEmail = Inr createStatus
      \<and> DescribeCreateAccountStatus client (casId createStatus) = Inr status
      \<and> casState status = Some ''SUCCEEDED'' \<longrightarrow>
      CreateAccount client accountName accountEmail
        = (Specified (\<lparr>dcasCreateAccountStatus = Some status\<rparr>, None),
           [CallCreateAccount accountName accountEmail, CallDescribeStatus (casId createStatus)]))"
  by (auto simp: CreateAccount_def classifyCreateError_def Let_def
        ErrCodeConstraintViolationException_def ErrCodeServiceException_def
        ErrCodeTooManyRequestsException_def)

theorem CreateAccount_classification_witness:
  "fst (CreateAccount
          (account_provider (Inl (AwsErr ErrCodeConstraintViolationException ''Error String''))
             (Inr succeeded))
          ''testaccount'' ''test@example.com'')
     = Specified (emptyDescribeOutput, Some ErrAwsAccountLimitExceeded)
   \<and> fst (CreateAccount
          (account_provider (Inl (AwsErr ErrCodeServiceException ''Error String'')) (Inr succeeded))
          ''testaccount'' ''test@example.com'')
     = Specified (emptyDescribeOutput, Some ErrAwsInternalFailure)
   \<and> fst (CreateAccount
          (account_provider (Inl (AwsErr ErrCodeTooManyRequestsException ''Error String''))
             (Inr succeeded))
          ''testaccount'' ''test@example.com'')
     = Specified (emptyDescribeOutput, Some ErrAwsTooManyRequests)
   \<and> fst (CreateAccount
          (account_provider (Inl (AwsErr ''DuplicateAccountException'' ''Error String''))
             (Inr succeeded))
          ''testaccount'' ''test@example.com'')
     = Specified (emptyDescribeOutput, Some ErrAwsFailedCreateAccount)
   \<and> CreateAccount (account_provider (Inr requested) (Inr limit_failed))
          ''testaccount'' ''test@example.com''
     = (Specified (emptyDescribeOutput, Some ErrAwsAccountLimitExceeded),
        [CallCreateAccount ''testaccount'' ''test@example.com'', CallDescribeStatus (Some ''ID'')])
   \<and> CreateAccount (account_provider (Inr requested) (Inr succeeded))
          ''testaccount'' ''test@example.com''
     = (Specified (\<lparr>dcasCreateAccountStatus = Some succeeded\<rparr>, None),
        [CallCreateAccount ''testaccount'' ''test@example.com'', CallDescribeStatus (Some ''ID'')])"
  using CreateAccount_classification
          [of "account_provider (Inl (AwsErr ErrCodeConstraintViolationException ''Error String''))
                 (Inr succeeded)"
              "''testaccount''" "''test@example.com''" "''Error String''"]
        CreateAccount_classification
          [of "account_provider (Inl (AwsErr ErrCodeServiceException ''Error String''))
                 (Inr succeeded)"
              "''testaccount''" "''test@example.com''" "''Error String''"]
        CreateAccount_classification
          [of "account_provider (Inl (AwsErr ErrCodeTooManyRequestsException ''Error String''))
                 (Inr succeeded)"
              "''testaccount''" "''test@example.com''" "''Error String''"]
        CreateAccount_classification
          [of "account_provider (Inl (AwsErr ''DuplicateAccountException'' ''Error String''))
                 (Inr succeeded)"
              "''testaccount''" "''test@example.com''" "''Error String''"
              "''DuplicateAccountException''"]
        CreateAccount_classification
          [of "account_provider (Inr requested) (Inr limit_failed)"
              "''testaccount''" "''test@example.com''" _ _ requested limit_failed]
        CreateAccount_classification
          [of "account_provider (Inr requested) (Inr succeeded)"
              "''testaccount''" "''test@example.com''" _ _ requested succeeded]
  by (simp add: account_provider_def requested_def limit_failed_def succeeded_def
        ErrCodeConstraintViolationException_def ErrCodeServiceException_def
        ErrCodeTooManyRequestsException_def)

end
